theory Spec2Isabelle
  imports Main "HOL-Library.Sublist"
begin

section \<open>A three-address-code virtual machine\<close>

text \<open>
  This theory embeds the execution engine of the 3AC interpreter (\<^verbatim>\<open>vm.py\<close>, with
  \<^verbatim>\<open>instruction.py\<close> and \<^verbatim>\<open>stack_frame.py\<close>) and the state export/import of
  \<^verbatim>\<open>controller.py\<close>, and proves properties of the loader, the scope resolver, the heap
  allocator, the call protocol and the dispatch engine.

  Conventions of the embedding.
  \<^item> The fields of the \<^verbatim>\<open>VM\<close> object are a record that every method takes and returns.
  \<^item> A Python exception is a value \<open>Exn cls msg\<close>. A method that can raise after it has
    changed the machine returns the exception together with the machine it leaves behind.
  \<^item> Python's dynamically typed values are the datatype \<open>val\<close>. Floats are kept abstract
    (the type parameter \<open>'f\<close>): what Python computes on them, and every other built-in whose
    result the sources do not determine (operators on mixed operands, \<^verbatim>\<open>str\<close> of a tuple,
    the text of built-in exceptions), is a field of the record \<open>host\<close>.
  \<^item> Program text is ASCII: \<open>is_space\<close>, \<open>is_word\<close> and the case mappings classify the
    characters below 128 as Python does and leave the others alone.
  \<^item> The program counter, return addresses and heap addresses are integers. The loader
    only ever stores integers as jump targets and \<^verbatim>\<open>CALL\<close> only ever stores integers as
    return addresses, so nothing else can reach them while the machine is running.
  \<^item> The console widget is the list of the messages inserted into it; the dialogs of
    \<^verbatim>\<open>tkinter.messagebox\<close> and the file dialogs change nothing in the machine and are
    left out. The file that export writes and import reads is represented by what
    \<^verbatim>\<open>json.load\<close> returns for what \<^verbatim>\<open>json.dump\<close> was given.
\<close>

subsection \<open>Values, exceptions and the host language\<close>

datatype 'f val =
    VNone
  | VBool bool
  | VInt int
  | VFloat 'f
  | VStr string
  | VTuple "'f val list"
  | VList "'f val list"

datatype exn_class =
    ValueError | TypeError | ZeroDivisionError | RuntimeError | KeyError | IndexError
  | AttributeError | MemoryError | NotImplementedError

datatype exn = Exn exn_class string

text \<open>The places where a built-in of Python raises on its own; the host supplies the text.\<close>

datatype host_fault =
    Unpack nat nat
  | No_attribute string string
  | String_index
  | List_index
  | Tuple_index
  | Unhashable string
  | Jump_target string

text \<open>
  The host language, as far as the sources leave it open:
  \<^item> \<open>float_of_str\<close> is \<^verbatim>\<open>float(s)\<close> on a float literal; \<open>float_eq\<close> and \<open>float_eq_int\<close>
    are \<^verbatim>\<open>==\<close> between two floats and between a float and an integer;
  \<^item> \<open>int_of\<close> is \<^verbatim>\<open>int(v)\<close> on a value that is neither an integer nor a boolean;
  \<^item> \<open>binop\<close> is a binary operator, named by the opcode that uses it (\<^verbatim>\<open>ADD\<close> for
    \<^verbatim>\<open>+\<close>, \<^verbatim>\<open>DIV\<close> for \<^verbatim>\<open>/\<close>, ...), and \<open>negate\<close> is unary minus; both may raise;
  \<^item> \<open>str_of\<close> and \<open>repr_of\<close> are \<^verbatim>\<open>str\<close> and \<^verbatim>\<open>repr\<close>;
  \<^item> \<open>host_text\<close> is the message of an exception that a built-in raises.
\<close>

record 'f host =
  float_of_str :: "string \<Rightarrow> 'f"
  float_eq :: "'f \<Rightarrow> 'f \<Rightarrow> bool"
  float_eq_int :: "'f \<Rightarrow> int \<Rightarrow> bool"
  int_of :: "'f val \<Rightarrow> exn + int"
  binop :: "string \<Rightarrow> 'f val \<Rightarrow> 'f val \<Rightarrow> exn + 'f val"
  negate :: "'f val \<Rightarrow> exn + 'f val"
  str_of :: "'f val \<Rightarrow> string"
  repr_of :: "'f val \<Rightarrow> string"
  host_text :: "host_fault \<Rightarrow> string"

text \<open>\<^verbatim>\<open>isinstance(v, int)\<close>: \<^verbatim>\<open>bool\<close> is a subclass of \<^verbatim>\<open>int\<close>.\<close>

fun as_int :: "'f val \<Rightarrow> int option" where
  "as_int (VInt n) = Some n"
| "as_int (VBool b) = Some (if b then 1 else 0)"
| "as_int _ = None"

text \<open>\<^verbatim>\<open>isinstance(v, str)\<close>.\<close>

fun is_str :: "'f val \<Rightarrow> bool" where
  "is_str (VStr _) = True"
| "is_str _ = False"

text \<open>\<^verbatim>\<open>a == b\<close> on values.\<close>

fun py_eq :: "'f host \<Rightarrow> 'f val \<Rightarrow> 'f val \<Rightarrow> bool"
  and py_eq_list :: "'f host \<Rightarrow> 'f val list \<Rightarrow> 'f val list \<Rightarrow> bool" where
  "py_eq P VNone b = (b = VNone)"
| "py_eq P (VStr s) b = (b = VStr s)"
| "py_eq P (VBool x) b =
     (case b of VBool y \<Rightarrow> x = y | VInt n \<Rightarrow> (if x then 1 else 0) = n
      | VFloat g \<Rightarrow> float_eq_int P g (if x then 1 else 0) | _ \<Rightarrow> False)"
| "py_eq P (VInt m) b =
     (case b of VBool y \<Rightarrow> m = (if y then 1 else 0) | VInt n \<Rightarrow> m = n
      | VFloat g \<Rightarrow> float_eq_int P g m | _ \<Rightarrow> False)"
| "py_eq P (VFloat f) b =
     (case b of VBool y \<Rightarrow> float_eq_int P f (if y then 1 else 0) | VInt n \<Rightarrow> float_eq_int P f n
      | VFloat g \<Rightarrow> float_eq P f g | _ \<Rightarrow> False)"
| "py_eq P (VTuple xs) b = (case b of VTuple ys \<Rightarrow> py_eq_list P xs ys | _ \<Rightarrow> False)"
| "py_eq P (VList xs) b = (case b of VList ys \<Rightarrow> py_eq_list P xs ys | _ \<Rightarrow> False)"
| "py_eq_list P [] ys = (ys = [])"
| "py_eq_list P (x # xs) ys =
     (case ys of [] \<Rightarrow> False | y # ys' \<Rightarrow> py_eq P x y \<and> py_eq_list P xs ys')"

text \<open>\<^verbatim>\<open>bool(v)\<close>, the truth value that \<^verbatim>\<open>if\<close>, \<^verbatim>\<open>not\<close>, \<^verbatim>\<open>and\<close> and \<^verbatim>\<open>or\<close> test.\<close>

fun truthy :: "'f host \<Rightarrow> 'f val \<Rightarrow> bool" where
  "truthy P VNone = False"
| "truthy P (VBool b) = b"
| "truthy P (VInt n) = (n \<noteq> 0)"
| "truthy P (VFloat f) = (\<not> float_eq_int P f 0)"
| "truthy P (VStr s) = (s \<noteq> [])"
| "truthy P (VTuple xs) = (xs \<noteq> [])"
| "truthy P (VList xs) = (xs \<noteq> [])"

text \<open>\<^verbatim>\<open>type(v).__name__\<close>.\<close>

fun type_name :: "'f val \<Rightarrow> string" where
  "type_name VNone = ''NoneType''"
| "type_name (VBool _) = ''bool''"
| "type_name (VInt _) = ''int''"
| "type_name (VFloat _) = ''float''"
| "type_name (VStr _) = ''str''"
| "type_name (VTuple _) = ''tuple''"
| "type_name (VList _) = ''list''"

text \<open>A list is unhashable, and so is a tuple that holds one.\<close>

fun hashable :: "'f val \<Rightarrow> bool" and hashable_list :: "'f val list \<Rightarrow> bool" where
  "hashable (VList _) = False"
| "hashable (VTuple xs) = hashable_list xs"
| "hashable VNone = True"
| "hashable (VBool _) = True"
| "hashable (VInt _) = True"
| "hashable (VFloat _) = True"
| "hashable (VStr _) = True"
| "hashable_list [] = True"
| "hashable_list (x # xs) = (hashable x \<and> hashable_list xs)"

subsection \<open>Decimal numerals\<close>

definition digit_char :: "nat \<Rightarrow> char" where
  "digit_char d = char_of (48 + d)"

text \<open>\<^verbatim>\<open>str(n)\<close> for an integer.\<close>

fun str_nat :: "nat \<Rightarrow> string" where
  "str_nat n = (if n < 10 then [digit_char n] else str_nat (n div 10) @ [digit_char (n mod 10)])"

declare str_nat.simps [simp del]

definition str_int :: "int \<Rightarrow> string" where
  "str_int i = (if i < 0 then CHR ''-'' # str_nat (nat (- i)) else str_nat (nat i))"

text \<open>\<^verbatim>\<open>str(v)\<close>, which is also what an f-string writes for \<^verbatim>\<open>{v}\<close>.\<close>

fun py_str :: "'f host \<Rightarrow> 'f val \<Rightarrow> string" where
  "py_str P VNone = ''None''"
| "py_str P (VBool b) = (if b then ''True'' else ''False'')"
| "py_str P (VInt n) = str_int n"
| "py_str P (VStr s) = s"
| "py_str P v = str_of P v"

subsection \<open>Strings\<close>

definition NL :: string where
  "NL = [CHR 0x0A]"

text \<open>\<^verbatim>\<open>str.isspace\<close>, also the whitespace class of \<^verbatim>\<open>re\<close>, on ASCII.\<close>

definition is_space :: "char \<Rightarrow> bool" where
  "is_space c = (let n = (of_char c :: nat) in (9 \<le> n \<and> n \<le> 13) \<or> (28 \<le> n \<and> n \<le> 32))"

definition is_digit :: "char \<Rightarrow> bool" where
  "is_digit c = (let n = (of_char c :: nat) in 48 \<le> n \<and> n \<le> 57)"

definition is_upper :: "char \<Rightarrow> bool" where
  "is_upper c = (let n = (of_char c :: nat) in 65 \<le> n \<and> n \<le> 90)"

definition is_lower :: "char \<Rightarrow> bool" where
  "is_lower c = (let n = (of_char c :: nat) in 97 \<le> n \<and> n \<le> 122)"

text \<open>The word class of \<^verbatim>\<open>re\<close> (letters, digits, underscore) on ASCII.\<close>

definition is_word :: "char \<Rightarrow> bool" where
  "is_word c = (is_digit c \<or> is_upper c \<or> is_lower c \<or> c = CHR ''_'')"

definition upper :: "string \<Rightarrow> string" where
  "upper s = map (\<lambda>c. if is_lower c then char_of (of_char c - (32::nat)) else c) s"

definition lower :: "string \<Rightarrow> string" where
  "lower s = map (\<lambda>c. if is_upper c then char_of (of_char c + (32::nat)) else c) s"

definition strip :: "string \<Rightarrow> string" where
  "strip s = rev (dropWhile is_space (rev (dropWhile is_space s)))"

definition startswith :: "string \<Rightarrow> string \<Rightarrow> bool" where
  "startswith s p = (take (length p) s = p)"

definition endswith :: "string \<Rightarrow> string \<Rightarrow> bool" where
  "endswith s p = (length p \<le> length s \<and> drop (length s - length p) s = p)"

text \<open>\<^verbatim>\<open>s.split(',')\<close>: one more piece than there are commas.\<close>

fun split_comma :: "string \<Rightarrow> string list" where
  "split_comma [] = [[]]"
| "split_comma (c # cs) =
     (if c = CHR '','' then [] # split_comma cs
      else (c # hd (split_comma cs)) # tl (split_comma cs))"

subsection \<open>Instructions, frames and the machine\<close>

record 'f instruction =
  opcode :: string
  operands :: "'f val list"
  line_num :: nat

text \<open>
  A Python \<^verbatim>\<open>dict\<close>: the items in insertion order, keys compared with \<^verbatim>\<open>==\<close>.
\<close>

type_synonym 'f dict = "('f val \<times> 'f val) list"

record 'f stack_frame =
  func_name :: "'f val"
  return_address :: int
  return_var_name :: "'f val"
  locals :: "'f dict"
  params :: "'f dict"

text \<open>
  The call stack grows at the end of the list: the top frame is \<open>last (call_stack vm)\<close>.
  \<open>console_output\<close> is the text inserted into the console widget so far, \<open>None\<close> when
  the machine has no widget.
\<close>

record 'f vm =
  program :: "'f instruction list"
  labels :: "string \<rightharpoonup> nat"
  pc :: int
  global_memory :: "'f dict"
  heap :: "'f val list"
  free_heap_slots :: "nat list"
  call_stack :: "'f stack_frame list"
  current_params :: "'f val list"
  running :: bool
  halted :: bool
  console_output :: "string list option"

fun dict_get :: "'f host \<Rightarrow> 'f dict \<Rightarrow> 'f val \<Rightarrow> 'f val option" where
  "dict_get P [] k = None"
| "dict_get P ((k', v') # d) k = (if py_eq P k' k then Some v' else dict_get P d k)"

fun dict_set :: "'f host \<Rightarrow> 'f dict \<Rightarrow> 'f val \<Rightarrow> 'f val \<Rightarrow> 'f dict" where
  "dict_set P [] k v = [(k, v)]"
| "dict_set P ((k', v') # d) k v =
     (if py_eq P k' k then (k', v) # d else (k', v') # dict_set P d k v)"

definition unhashable :: "'f host \<Rightarrow> 'f val \<Rightarrow> exn" where
  "unhashable P k = Exn TypeError (host_text P (Unhashable (type_name k)))"

subsection \<open>\<^verbatim>\<open>VM.reset_state\<close> and \<^verbatim>\<open>VM._log_console\<close>\<close>

definition reset_state :: "'f vm \<Rightarrow> 'f vm" where
  "reset_state vm = vm\<lparr>
     pc := 0,
     global_memory := [],
     heap := replicate 100 VNone,
     free_heap_slots := [0..<100],
     call_stack := [],
     current_params := [],
     running := False,
     halted := False,
     console_output := (case console_output vm of None \<Rightarrow> None
                        | Some _ \<Rightarrow> Some [''--- VM Console ---'' @ NL])\<rparr>"

text \<open>\<^verbatim>\<open>VM.__init__\<close>.\<close>

definition init_vm :: "string list option \<Rightarrow> 'f vm" where
  "init_vm widget = reset_state \<lparr>
     program = [], labels = Map.empty, pc = 0, global_memory = [], heap = [],
     free_heap_slots = [], call_stack = [], current_params = [], running = False,
     halted = False, console_output = widget\<rparr>"

definition log_console :: "'f vm \<Rightarrow> string \<Rightarrow> 'f vm" where
  "log_console vm message =
     (case console_output vm of None \<Rightarrow> vm
      | Some shown \<Rightarrow> vm\<lparr>console_output := Some (shown @ [message])\<rparr>)"

subsection \<open>\<^verbatim>\<open>VM.load_program\<close> and \<^verbatim>\<open>VM._parse_operand_value\<close>\<close>

definition SQ :: string where
  "SQ = [CHR 0x27]"

definition DQ :: string where
  "DQ = [CHR 0x22]"

text \<open>
  \<^verbatim>\<open>re.match(r'(\w+)\s*(.*)', line)\<close>: the longest run of word characters at the start (at
  least one), any whitespace, then everything up to the next newline. The result is the
  pair of groups 1 and 2.
\<close>

definition match_line :: "string \<Rightarrow> (string \<times> string) option" where
  "match_line line =
     (if takeWhile is_word line = [] then None
      else Some (takeWhile is_word line,
                 takeWhile (\<lambda>c. c \<noteq> CHR 0x0A) (dropWhile is_space (dropWhile is_word line))))"

text \<open>In \<^verbatim>\<open>re\<close>, \<^verbatim>\<open>$\<close> matches at the end and also before one final newline.\<close>

definition chomp :: "string \<Rightarrow> string" where
  "chomp s = (if s \<noteq> [] \<and> last s = CHR 0x0A then butlast s else s)"

definition unsigned :: "string \<Rightarrow> string" where
  "unsigned s = (if startswith s ''-'' then tl s else s)"

text \<open>\<^verbatim>\<open>re.match(r"^-?\d+$", s)\<close>.\<close>

definition is_int_literal :: "string \<Rightarrow> bool" where
  "is_int_literal s = (unsigned (chomp s) \<noteq> [] \<and> list_all is_digit (unsigned (chomp s)))"

text \<open>\<^verbatim>\<open>re.match(r"^-?\d+\.\d*$", s)\<close>.\<close>

definition is_float_literal :: "string \<Rightarrow> bool" where
  "is_float_literal s =
     (let d = unsigned (chomp s); r = dropWhile is_digit d in
      takeWhile is_digit d \<noteq> [] \<and> r \<noteq> [] \<and> hd r = CHR ''.'' \<and> list_all is_digit (tl r))"

definition digits_val :: "string \<Rightarrow> nat" where
  "digits_val s = foldl (\<lambda>a c. 10 * a + (of_char c - 48)) 0 s"

text \<open>\<^verbatim>\<open>int(s)\<close> for a string that \<open>is_int_literal\<close> accepts.\<close>

definition int_of_literal :: "string \<Rightarrow> int" where
  "int_of_literal s =
     (if startswith (chomp s) ''-'' then - int (digits_val (tl (chomp s)))
      else int (digits_val (chomp s)))"

definition parse_operand_value :: "'f host \<Rightarrow> string \<Rightarrow> 'f val" where
  "parse_operand_value P op_str =
     (if lower op_str = ''true'' then VBool True
      else if lower op_str = ''false'' then VBool False
      else if startswith op_str DQ \<and> endswith op_str DQ then VStr (butlast (tl op_str))
      else if is_int_literal op_str then VInt (int_of_literal op_str)
      else if is_float_literal op_str then VFloat (float_of_str P op_str)
      else VStr op_str)"

text \<open>
  The operand list of one line, from the text after the opcode:
  \<^verbatim>\<open>[self._parse_operand_value(op.strip()) for op in operands_str.split(',')]\<close>, and no
  operand at all when the text is empty.
\<close>

definition parse_operands :: "'f host \<Rightarrow> string \<Rightarrow> 'f val list" where
  "parse_operands P operands_str =
     (if operands_str = [] then []
      else map (\<lambda>op. parse_operand_value P (strip op)) (split_comma operands_str))"

text \<open>
  The first loop of \<^verbatim>\<open>load_program\<close>, over \<^verbatim>\<open>enumerate(tac_code_lines)\<close> from index
  \<open>i\<close>, with the instructions read so far and the label table. A line that does not
  match raises \<^verbatim>\<open>ValueError\<close>; the label table keeps what was entered before.
\<close>

fun load_lines ::
  "'f host \<Rightarrow> nat \<Rightarrow> string list \<Rightarrow> 'f instruction list \<Rightarrow> (string \<rightharpoonup> nat) \<Rightarrow>
   exn option \<times> 'f instruction list \<times> (string \<rightharpoonup> nat)" where
  "load_lines P i [] raw lbl = (None, raw, lbl)"
| "load_lines P i (l # ls) raw lbl =
     (if strip l = [] \<or> startswith (strip l) ''#'' then load_lines P (Suc i) ls raw lbl
      else if endswith (strip l) '':'' then
        load_lines P (Suc i) ls raw (lbl(butlast (strip l) \<mapsto> length raw))
      else
        (case match_line (strip l) of
           None \<Rightarrow>
             (Some (Exn ValueError
                (''Syntax error at line '' @ str_nat (i + 1) @ '': '' @ SQ @ strip l @ SQ)),
              raw, lbl)
         | Some (w, rest) \<Rightarrow>
             load_lines P (Suc i) ls
               (raw @ [\<lparr>opcode = upper w, operands = parse_operands P (strip rest),
                        line_num = i\<rparr>])
               lbl))"

definition is_jump :: "string \<Rightarrow> bool" where
  "is_jump opc = (opc = ''JUMP'' \<or> opc = ''JUMPT'' \<or> opc = ''JUMPF'')"

text \<open>\<^verbatim>\<open>name in self.labels\<close> and \<^verbatim>\<open>self.labels[name]\<close>: the keys are strings.\<close>

fun label_lookup :: "(string \<rightharpoonup> nat) \<Rightarrow> 'f val \<Rightarrow> nat option" where
  "label_lookup lbl (VStr s) = lbl s"
| "label_lookup lbl _ = None"

text \<open>
  The second loop of \<^verbatim>\<open>load_program\<close>: the first operand of every jump is replaced, in
  place, by the index of its label. The loop stops at the first jump that has no operand
  or whose label is not in the table; the instructions before it stay rewritten.
\<close>

fun resolve_labels ::
  "'f host \<Rightarrow> (string \<rightharpoonup> nat) \<Rightarrow> 'f instruction list \<Rightarrow> exn option \<times> 'f instruction list" where
  "resolve_labels P lbl [] = (None, [])"
| "resolve_labels P lbl (ins # rest) =
     (if is_jump (opcode ins) then
        (case operands ins of
           [] \<Rightarrow> (Some (Exn IndexError (host_text P List_index)), ins # rest)
         | t # ts \<Rightarrow>
             (case label_lookup lbl t of
                None \<Rightarrow>
                  (Some (Exn ValueError
                     (''Undefined label '' @ SQ @ py_str P t @ SQ @ '' at 3AC line ''
                      @ str_nat (line_num ins))),
                   ins # rest)
              | Some n \<Rightarrow>
                  (fst (resolve_labels P lbl rest),
                   ins\<lparr>operands := VInt (int n) # ts\<rparr> # snd (resolve_labels P lbl rest))))
      else (fst (resolve_labels P lbl rest), ins # snd (resolve_labels P lbl rest)))"

text \<open>
  \<^verbatim>\<open>load_program\<close>: the exception it raises, if any, and the machine it leaves.
  \<^verbatim>\<open>self.program\<close> is assigned between the two loops, and \<^verbatim>\<open>self.running\<close> is set
  only after the second.
\<close>

definition load_program :: "'f host \<Rightarrow> 'f vm \<Rightarrow> string list \<Rightarrow> exn option \<times> 'f vm" where
  "load_program P vm tac_code_lines =
     (let vm1 = (reset_state vm)\<lparr>program := [], labels := Map.empty\<rparr> in
      case load_lines P 0 tac_code_lines [] Map.empty of
        (Some e, raw, lbl) \<Rightarrow> (Some e, vm1\<lparr>labels := lbl\<rparr>)
      | (None, raw, lbl) \<Rightarrow>
          (case resolve_labels P lbl raw of
             (Some e, prog) \<Rightarrow> (Some e, vm1\<lparr>labels := lbl, program := prog\<rparr>)
           | (None, prog) \<Rightarrow> (None, vm1\<lparr>labels := lbl, program := prog, running := True\<rparr>)))"

subsection \<open>The scope resolver\<close>

text \<open>\<^verbatim>\<open>isinstance(a, int) and 0 <= a < len(self.heap)\<close>, giving the index.\<close>

definition heap_index :: "'f vm \<Rightarrow> 'f val \<Rightarrow> nat option" where
  "heap_index vm a =
     (case as_int a of None \<Rightarrow> None
      | Some i \<Rightarrow> if 0 \<le> i \<and> i < int (length (heap vm)) then Some (nat i) else None)"

text \<open>\<^verbatim>\<open>d.get(k)\<close>.\<close>

definition dict_get_or_none :: "'f host \<Rightarrow> 'f dict \<Rightarrow> 'f val \<Rightarrow> 'f val" where
  "dict_get_or_none P d k = (case dict_get P d k of None \<Rightarrow> VNone | Some v \<Rightarrow> v)"

fun get_value_from_pointer :: "'f host \<Rightarrow> 'f vm \<Rightarrow> 'f val \<Rightarrow> exn + 'f val" where
  "get_value_from_pointer P vm (VTuple [ptr_type, location]) =
     (if ptr_type = VStr ''heap'' then
        (case heap_index vm location of
           None \<Rightarrow> Inl (Exn ValueError (''Invalid heap address in pointer: ''
                                        @ py_str P (VTuple [ptr_type, location])))
         | Some a \<Rightarrow> Inr (heap vm ! a))
      else if ptr_type = VStr ''global'' then
        (if hashable location then Inr (dict_get_or_none P (global_memory vm) location)
         else Inl (unhashable P location))
      else if ptr_type = VStr ''local'' then
        (if call_stack vm = [] then
           Inl (Exn RuntimeError ''Attempted to access local pointer with no active stack frame.'')
         else if hashable location then
           Inr (dict_get_or_none P (locals (last (call_stack vm))) location)
         else Inl (unhashable P location))
      else Inl (Exn TypeError (''Unknown pointer type '' @ SQ @ py_str P ptr_type @ SQ)))"
| "get_value_from_pointer P vm pointer =
     Inl (Exn ValueError (''Invalid pointer format: '' @ py_str P pointer))"

text \<open>Writing \<^verbatim>\<open>frame.locals\<close> of the top frame.\<close>

definition set_top_locals :: "'f vm \<Rightarrow> 'f dict \<Rightarrow> 'f vm" where
  "set_top_locals vm d =
     vm\<lparr>call_stack := butlast (call_stack vm) @ [(last (call_stack vm))\<lparr>locals := d\<rparr>]\<rparr>"

fun set_value_at_pointer :: "'f host \<Rightarrow> 'f vm \<Rightarrow> 'f val \<Rightarrow> 'f val \<Rightarrow> exn + 'f vm" where
  "set_value_at_pointer P vm (VTuple [ptr_type, location]) v =
     (if ptr_type = VStr ''heap'' then
        (case heap_index vm location of
           None \<Rightarrow> Inl (Exn ValueError (''Invalid heap address in pointer: ''
                                        @ py_str P (VTuple [ptr_type, location])))
         | Some a \<Rightarrow> Inr (vm\<lparr>heap := (heap vm)[a := v]\<rparr>))
      else if ptr_type = VStr ''global'' then
        (if hashable location then
           Inr (vm\<lparr>global_memory := dict_set P (global_memory vm) location v\<rparr>)
         else Inl (unhashable P location))
      else if ptr_type = VStr ''local'' then
        (if call_stack vm = [] then
           Inl (Exn RuntimeError
                  ''Attempted to set local pointer value with no active stack frame.'')
         else if hashable location then
           Inr (set_top_locals vm (dict_set P (locals (last (call_stack vm))) location v))
         else Inl (unhashable P location))
      else Inl (Exn TypeError (''Unknown pointer type '' @ SQ @ py_str P ptr_type @ SQ)))"
| "set_value_at_pointer P vm pointer v =
     Inl (Exn ValueError (''Invalid pointer format for storing: '' @ py_str P pointer))"

text \<open>\<^verbatim>\<open>param_info[0] in ('heap', 'global', 'local')\<close>.\<close>

definition is_ref_kind :: "'f val \<Rightarrow> bool" where
  "is_ref_kind t = (t = VStr ''heap'' \<or> t = VStr ''global'' \<or> t = VStr ''local'')"

text \<open>
  \<^verbatim>\<open>VM._get_operand_value\<close>. An operand that is not a string is a literal. A string is
  looked up in the locals of the top frame, then in its parameters (where a pointer is
  followed), then in global memory; a name found nowhere reads \<^verbatim>\<open>None\<close>.
\<close>

definition get_operand_value :: "'f host \<Rightarrow> 'f vm \<Rightarrow> 'f val \<Rightarrow> exn + 'f val" where
  "get_operand_value P vm operand_name =
     (case operand_name of
        VStr name \<Rightarrow>
          (if call_stack vm \<noteq> [] \<and> dict_get P (locals (last (call_stack vm))) (VStr name) \<noteq> None
           then Inr (the (dict_get P (locals (last (call_stack vm))) (VStr name)))
           else if call_stack vm \<noteq> []
                 \<and> dict_get P (params (last (call_stack vm))) (VStr name) \<noteq> None
           then
             (case the (dict_get P (params (last (call_stack vm))) (VStr name)) of
                VTuple [] \<Rightarrow> Inl (Exn IndexError (host_text P Tuple_index))
              | VTuple (kind # rest) \<Rightarrow>
                  if is_ref_kind kind then get_value_from_pointer P vm (VTuple (kind # rest))
                  else Inr (VTuple (kind # rest))
              | param_info \<Rightarrow> Inr param_info)
           else if dict_get P (global_memory vm) (VStr name) \<noteq> None
           then Inr (the (dict_get P (global_memory vm) (VStr name)))
           else Inr VNone)
      | literal \<Rightarrow> Inr literal)"

text \<open>
  \<^verbatim>\<open>VM._set_variable_value\<close>. With a frame on the stack both branches store into the
  locals of the top frame; \<^verbatim>\<open>var_name.startswith\<close> is reached when the name is not a
  local yet, and raises when the name is not a string.
\<close>

definition set_variable_value :: "'f host \<Rightarrow> 'f vm \<Rightarrow> 'f val \<Rightarrow> 'f val \<Rightarrow> exn + 'f vm" where
  "set_variable_value P vm var_name v =
     (if \<not> hashable var_name then Inl (unhashable P var_name)
      else if call_stack vm \<noteq> [] then
        (if dict_get P (locals (last (call_stack vm))) var_name \<noteq> None
            \<or> is_str var_name
         then Inr (set_top_locals vm (dict_set P (locals (last (call_stack vm))) var_name v))
         else Inl (Exn AttributeError
                     (host_text P (No_attribute (type_name var_name) ''startswith''))))
      else Inr (vm\<lparr>global_memory := dict_set P (global_memory vm) var_name v\<rparr>))"

text \<open>\<^verbatim>\<open>VM._get_variable_address\<close>.\<close>

definition get_variable_address :: "'f host \<Rightarrow> 'f vm \<Rightarrow> 'f val \<Rightarrow> exn + 'f val" where
  "get_variable_address P vm var_name =
     (if \<not> hashable var_name then Inl (unhashable P var_name)
      else if call_stack vm \<noteq> []
              \<and> (dict_get P (locals (last (call_stack vm))) var_name \<noteq> None
                 \<or> dict_get P (params (last (call_stack vm))) var_name \<noteq> None)
      then Inr (VTuple [VStr ''local'', var_name])
      else Inr (VTuple [VStr ''global'', var_name]))"

subsection \<open>The heap allocator\<close>

text \<open>\<^verbatim>\<open>VM._allocate_heap_slot\<close>: the address it returns and the machine afterwards.\<close>

definition allocate_heap_slot :: "'f vm \<Rightarrow> nat \<times> 'f vm" where
  "allocate_heap_slot vm =
     (if free_heap_slots vm \<noteq> [] then
        (hd (free_heap_slots vm), vm\<lparr>free_heap_slots := tl (free_heap_slots vm)\<rparr>)
      else
        (let current_heap_size = length (heap vm);
             new_slots = [current_heap_size ..< current_heap_size + 50];
             slots = free_heap_slots vm @ new_slots
         in (hd slots, vm\<lparr>heap := heap vm @ replicate 50 VNone, free_heap_slots := tl slots\<rparr>)))"

text \<open>\<^verbatim>\<open>VM._free_heap_slot\<close>.\<close>

definition free_heap_slot :: "'f host \<Rightarrow> 'f vm \<Rightarrow> 'f val \<Rightarrow> 'f vm" where
  "free_heap_slot P vm addr =
     (case heap_index vm addr of
        Some a \<Rightarrow>
          vm\<lparr>heap := (if heap vm ! a \<noteq> VNone then (heap vm)[a := VNone] else heap vm),
             free_heap_slots := (if a \<notin> set (free_heap_slots vm) then free_heap_slots vm @ [a]
                                 else free_heap_slots vm)\<rparr>
      | None \<Rightarrow>
          log_console vm
            (''Warning: Attempted to free invalid or out-of-bounds heap address ''
             @ py_str P addr @ NL))"

text \<open>\<^verbatim>\<open>[self._allocate_heap_slot() for _ in range(n)]\<close>.\<close>

fun allocate_slots :: "nat \<Rightarrow> 'f vm \<Rightarrow> nat list \<times> 'f vm" where
  "allocate_slots 0 vm = ([], vm)"
| "allocate_slots (Suc n) vm =
     (fst (allocate_heap_slot vm) # fst (allocate_slots n (snd (allocate_heap_slot vm))),
      snd (allocate_slots n (snd (allocate_heap_slot vm))))"

subsection \<open>The handlers\<close>

text \<open>
  A handler returns the exception it raises, if any, with the machine as it is at that
  moment. \<open>finish\<close> is the common tail: the last store of the handler, then
  \<^verbatim>\<open>self.pc += 1\<close>.
\<close>

definition advance :: "'f vm \<Rightarrow> 'f vm" where
  "advance vm = vm\<lparr>pc := pc vm + 1\<rparr>"

definition finish :: "'f vm \<Rightarrow> exn + 'f vm \<Rightarrow> exn option \<times> 'f vm" where
  "finish vm r = (case r of Inl e \<Rightarrow> (Some e, vm) | Inr vm' \<Rightarrow> (None, advance vm'))"

text \<open>
  Unpacking \<^verbatim>\<open>operands\<close> into two or three names, which raises \<^verbatim>\<open>ValueError\<close> when
  the instruction has another number of operands.
\<close>

fun unpack2 :: "'a list \<Rightarrow> ('a \<times> 'a) option" where
  "unpack2 [a, b] = Some (a, b)"
| "unpack2 _ = None"

fun unpack3 :: "'a list \<Rightarrow> ('a \<times> 'a \<times> 'a) option" where
  "unpack3 [a, b, c] = Some (a, b, c)"
| "unpack3 _ = None"

definition unpack_error :: "'f host \<Rightarrow> nat \<Rightarrow> 'f val list \<Rightarrow> exn" where
  "unpack_error P expected ops = Exn ValueError (host_text P (Unpack expected (length ops)))"

text \<open>\<^verbatim>\<open>operands[0]\<close> on an instruction without operands.\<close>

definition no_operand :: "'f host \<Rightarrow> exn" where
  "no_operand P = Exn IndexError (host_text P List_index)"

definition handle_assignment :: "'f host \<Rightarrow> 'f vm \<Rightarrow> 'f instruction \<Rightarrow> exn option \<times> 'f vm" where
  "handle_assignment P vm instr =
     (if opcode instr = ''ASSIGN'' then
        (case unpack2 (operands instr) of
           None \<Rightarrow> (Some (unpack_error P 2 (operands instr)), vm)
         | Some (target, source) \<Rightarrow>
             (case get_operand_value P vm source of
                Inl e \<Rightarrow> (Some e, vm)
              | Inr v \<Rightarrow> finish vm (set_variable_value P vm target v)))
      else if opcode instr = ''CONST_ASSIGN'' then
        (case unpack2 (operands instr) of
           None \<Rightarrow> (Some (unpack_error P 2 (operands instr)), vm)
         | Some (target, v) \<Rightarrow> finish vm (set_variable_value P vm target v))
      else (None, advance vm))"

text \<open>
  The binary operators of Python. On two integers (booleans included) the sum,
  difference, product, floor remainder and the comparisons are computed here; true
  division, and every operator on other operands, is the host's.
\<close>

definition py_binop :: "'f host \<Rightarrow> string \<Rightarrow> 'f val \<Rightarrow> 'f val \<Rightarrow> exn + 'f val" where
  "py_binop P opc a b =
     (if as_int a = None \<or> as_int b = None then binop P opc a b
      else if opc = ''ADD'' then Inr (VInt (the (as_int a) + the (as_int b)))
      else if opc = ''SUB'' then Inr (VInt (the (as_int a) - the (as_int b)))
      else if opc = ''MUL'' then Inr (VInt (the (as_int a) * the (as_int b)))
      else if opc = ''MOD'' \<and> the (as_int b) \<noteq> 0
        then Inr (VInt (the (as_int a) mod the (as_int b)))
      else if opc = ''LT'' then Inr (VBool (the (as_int a) < the (as_int b)))
      else if opc = ''LE'' then Inr (VBool (the (as_int a) \<le> the (as_int b)))
      else if opc = ''GT'' then Inr (VBool (the (as_int a) > the (as_int b)))
      else if opc = ''GE'' then Inr (VBool (the (as_int a) \<ge> the (as_int b)))
      else binop P opc a b)"

text \<open>The \<^verbatim>\<open>if/elif\<close> chain of \<^verbatim>\<open>VM._handle_arithmetic\<close>.\<close>

definition arith_result :: "'f host \<Rightarrow> string \<Rightarrow> 'f val \<Rightarrow> 'f val \<Rightarrow> exn + 'f val" where
  "arith_result P opc val1 val2 =
     (if opc = ''ADD'' then py_binop P ''ADD'' val1 val2
      else if opc = ''SUB'' then py_binop P ''SUB'' val1 val2
      else if opc = ''MUL'' then py_binop P ''MUL'' val1 val2
      else if opc = ''DIV'' then
        (if py_eq P val2 (VInt 0) then Inl (Exn ZeroDivisionError ''Division by zero'')
         else py_binop P ''DIV'' val1 val2)
      else if opc = ''MOD'' then
        (if py_eq P val2 (VInt 0) then Inl (Exn ZeroDivisionError ''Modulo by zero'')
         else py_binop P ''MOD'' val1 val2)
      else if opc = ''EQ'' then Inr (VBool (py_eq P val1 val2))
      else if opc = ''NE'' then Inr (VBool (\<not> py_eq P val1 val2))
      else if opc = ''LT'' then py_binop P ''LT'' val1 val2
      else if opc = ''LE'' then py_binop P ''LE'' val1 val2
      else if opc = ''GT'' then py_binop P ''GT'' val1 val2
      else if opc = ''GE'' then py_binop P ''GE'' val1 val2
      else if opc = ''OR'' then Inr (if truthy P val1 then val1 else val2)
      else if opc = ''AND'' then Inr (if truthy P val1 then val2 else val1)
      else Inr VNone)"

definition handle_arithmetic :: "'f host \<Rightarrow> 'f vm \<Rightarrow> 'f instruction \<Rightarrow> exn option \<times> 'f vm" where
  "handle_arithmetic P vm instr =
     (case unpack3 (operands instr) of
        None \<Rightarrow> (Some (unpack_error P 3 (operands instr)), vm)
      | Some (target, op1_name, op2_name) \<Rightarrow>
          (case get_operand_value P vm op1_name of
             Inl e \<Rightarrow> (Some e, vm)
           | Inr val1 \<Rightarrow>
               (case get_operand_value P vm op2_name of
                  Inl e \<Rightarrow> (Some e, vm)
                | Inr val2 \<Rightarrow>
                    (case arith_result P (opcode instr) val1 val2 of
                       Inl e \<Rightarrow> (Some e, vm)
                     | Inr result \<Rightarrow> finish vm (set_variable_value P vm target result)))))"

text \<open>\<^verbatim>\<open>s[i]\<close> on a string: a negative index counts from the end.\<close>

definition str_index :: "string \<Rightarrow> int \<Rightarrow> char option" where
  "str_index s i =
     (let n = int (length s); j = (if i < 0 then n + i else i)
      in if 0 \<le> j \<and> j < n then Some (s ! nat j) else None)"

definition expects_error :: "'f host \<Rightarrow> string \<Rightarrow> 'f val \<Rightarrow> 'f val \<Rightarrow> exn" where
  "expects_error P what v operand =
     Exn TypeError (what @ '', but got '' @ type_name v @ '' from '' @ SQ @ py_str P operand @ SQ)"

text \<open>The branch \<^verbatim>\<open>CONCAT\<close> of \<^verbatim>\<open>VM._handle_string\<close>, up to the store.\<close>

definition string_concat :: "'f host \<Rightarrow> 'f vm \<Rightarrow> 'f val list \<Rightarrow> exn option \<times> 'f vm" where
  "string_concat P vm ops =
     (case unpack3 ops of
        None \<Rightarrow> (Some (unpack_error P 3 ops), vm)
      | Some (target, str1_op, str2_op) \<Rightarrow>
          (case get_operand_value P vm str1_op of
             Inl e \<Rightarrow> (Some e, vm)
           | Inr val1 \<Rightarrow>
               (case get_operand_value P vm str2_op of
                  Inl e \<Rightarrow> (Some e, vm)
                | Inr val2 \<Rightarrow>
                    finish vm
                      (set_variable_value P vm target (VStr (py_str P val1 @ py_str P val2))))))"

text \<open>The branch \<^verbatim>\<open>STRLEN\<close>.\<close>

definition string_strlen :: "'f host \<Rightarrow> 'f vm \<Rightarrow> 'f val list \<Rightarrow> exn option \<times> 'f vm" where
  "string_strlen P vm ops =
     (case unpack2 ops of
        None \<Rightarrow> (Some (unpack_error P 2 ops), vm)
      | Some (target, str_op) \<Rightarrow>
          (case get_operand_value P vm str_op of
             Inl e \<Rightarrow> (Some e, vm)
           | Inr v \<Rightarrow>
               (case v of
                  VStr s \<Rightarrow> finish vm (set_variable_value P vm target (VInt (int (length s))))
                | _ \<Rightarrow> (Some (expects_error P ''STRLEN expects a string'' v str_op), vm))))"

text \<open>
  The branch \<^verbatim>\<open>GETCHAR\<close>: both operands are read, then the string is checked, then the
  index, then \<^verbatim>\<open>string_val[index_val]\<close> is stored.
\<close>

definition string_getchar :: "'f host \<Rightarrow> 'f vm \<Rightarrow> 'f val list \<Rightarrow> exn option \<times> 'f vm" where
  "string_getchar P vm ops =
     (case unpack3 ops of
        None \<Rightarrow> (Some (unpack_error P 3 ops), vm)
      | Some (target, str_op, index_op) \<Rightarrow>
          (case get_operand_value P vm str_op of
             Inl e \<Rightarrow> (Some e, vm)
           | Inr string_val \<Rightarrow>
               (case get_operand_value P vm index_op of
                  Inl e \<Rightarrow> (Some e, vm)
                | Inr index_val \<Rightarrow>
                    (case string_val of
                       VStr s \<Rightarrow>
                         (case as_int index_val of
                            None \<Rightarrow>
                              (Some (expects_error P ''GETCHAR expects an integer index''
                                       index_val index_op), vm)
                          | Some i \<Rightarrow>
                              (case str_index s i of
                                 None \<Rightarrow> (Some (Exn IndexError (host_text P String_index)), vm)
                               | Some c \<Rightarrow>
                                   finish vm (set_variable_value P vm target (VStr [c]))))
                     | _ \<Rightarrow>
                         (Some (expects_error P ''GETCHAR expects a string'' string_val str_op),
                          vm)))))"

definition handle_string :: "'f host \<Rightarrow> 'f vm \<Rightarrow> 'f instruction \<Rightarrow> exn option \<times> 'f vm" where
  "handle_string P vm instr =
     (if opcode instr = ''CONCAT'' then string_concat P vm (operands instr)
      else if opcode instr = ''STRLEN'' then string_strlen P vm (operands instr)
      else if opcode instr = ''GETCHAR'' then string_getchar P vm (operands instr)
      else (None, advance vm))"

text \<open>
  \<^verbatim>\<open>self.pc = target\<close>. The loader has replaced every target by an integer; for any
  other value the embedding reports a fault here (in Python the assignment succeeds and
  the comparison of the program counter in the next \<^verbatim>\<open>step\<close> raises).
\<close>

definition jump_to :: "'f host \<Rightarrow> 'f vm \<Rightarrow> 'f val \<Rightarrow> exn option \<times> 'f vm" where
  "jump_to P vm target =
     (case as_int target of
        Some n \<Rightarrow> (None, vm\<lparr>pc := n\<rparr>)
      | None \<Rightarrow> (Some (Exn TypeError (host_text P (Jump_target (type_name target)))), vm))"

text \<open>The branches \<^verbatim>\<open>JUMPT\<close> (\<open>want = True\<close>) and \<^verbatim>\<open>JUMPF\<close> (\<open>want = False\<close>).\<close>

definition jump_if :: "'f host \<Rightarrow> bool \<Rightarrow> 'f vm \<Rightarrow> 'f val list \<Rightarrow> exn option \<times> 'f vm" where
  "jump_if P want vm ops =
     (case unpack2 ops of
        None \<Rightarrow> (Some (unpack_error P 2 ops), vm)
      | Some (label_target_pc, condition_var) \<Rightarrow>
          (case get_operand_value P vm condition_var of
             Inl e \<Rightarrow> (Some e, vm)
           | Inr c \<Rightarrow>
               if truthy P c = want then jump_to P vm label_target_pc else (None, advance vm)))"

definition handle_jump :: "'f host \<Rightarrow> 'f vm \<Rightarrow> 'f instruction \<Rightarrow> exn option \<times> 'f vm" where
  "handle_jump P vm instr =
     (if opcode instr = ''JUMP'' then
        (if operands instr = [] then (Some (no_operand P), vm)
         else jump_to P vm (hd (operands instr)))
      else if opcode instr = ''JUMPT'' then jump_if P True vm (operands instr)
      else if opcode instr = ''JUMPF'' then jump_if P False vm (operands instr)
      else (None, vm))"

text \<open>\<^verbatim>\<open>int(v)\<close>: an integer or a boolean is its own value, the rest is the host's.\<close>

definition py_int :: "'f host \<Rightarrow> 'f val \<Rightarrow> exn + int" where
  "py_int P v = (case as_int v of Some n \<Rightarrow> Inr n | None \<Rightarrow> int_of P v)"

text \<open>\<^verbatim>\<open>f'ARG{i}'\<close>.\<close>

definition arg_name :: "nat \<Rightarrow> string" where
  "arg_name i = ''ARG'' @ str_nat i"

text \<open>
  The loop of \<^verbatim>\<open>CALL\<close> over \<^verbatim>\<open>enumerate(self.current_params)\<close>, from index \<open>i\<close>: the
  dictionary that has received \<^verbatim>\<open>ARGi\<close>, \<^verbatim>\<open>ARGi+1\<close>, ... The frame's \<^verbatim>\<open>params\<close> and
  \<^verbatim>\<open>locals\<close> both start empty and receive the same entries.
\<close>

fun bind_args :: "'f host \<Rightarrow> nat \<Rightarrow> 'f val list \<Rightarrow> 'f dict \<Rightarrow> 'f dict" where
  "bind_args P i [] d = d"
| "bind_args P i (param_val # ps) d =
     bind_args P (Suc i) ps (dict_set P d (VStr (arg_name i)) param_val)"

text \<open>The branch \<^verbatim>\<open>PARAM\<close> of \<^verbatim>\<open>VM._handle_function\<close>.\<close>

definition function_param :: "'f host \<Rightarrow> 'f vm \<Rightarrow> 'f val list \<Rightarrow> exn option \<times> 'f vm" where
  "function_param P vm ops =
     (if ops = [] then (Some (no_operand P), vm)
      else
        (case get_operand_value P vm (hd ops) of
           Inl e \<Rightarrow> (Some e, vm)
         | Inr value_to_pass \<Rightarrow>
             (None, advance (vm\<lparr>current_params := current_params vm @ [value_to_pass]\<rparr>))))"

text \<open>The branch \<^verbatim>\<open>REF_PARAM\<close>: the pointer is appended, not the value.\<close>

definition function_ref_param :: "'f host \<Rightarrow> 'f vm \<Rightarrow> 'f val list \<Rightarrow> exn option \<times> 'f vm" where
  "function_ref_param P vm ops =
     (if ops = [] then (Some (no_operand P), vm)
      else
        (case get_variable_address P vm (hd ops) of
           Inl e \<Rightarrow> (Some e, vm)
         | Inr addr \<Rightarrow> (None, advance (vm\<lparr>current_params := current_params vm @ [addr]\<rparr>))))"

text \<open>
  The frame that \<^verbatim>\<open>CALL\<close> builds: \<^verbatim>\<open>StackFrame(label, self.pc + 1, return_var)\<close> with
  every pending parameter stored under \<^verbatim>\<open>ARGi\<close> in \<^verbatim>\<open>params\<close> and in \<^verbatim>\<open>locals\<close>.
\<close>

definition new_frame :: "'f host \<Rightarrow> 'f vm \<Rightarrow> 'f val \<Rightarrow> 'f val \<Rightarrow> 'f stack_frame" where
  "new_frame P vm func_name_label return_var =
     \<lparr>func_name = func_name_label, return_address = pc vm + 1, return_var_name = return_var,
      locals = bind_args P 0 (current_params vm) [],
      params = bind_args P 0 (current_params vm) []\<rparr>"

text \<open>
  The branch \<^verbatim>\<open>CALL\<close>. The frame is pushed and the parameter buffer cleared before
  \<^verbatim>\<open>self.labels[func_name_label]\<close> is looked up, so a missing label raises
  \<^verbatim>\<open>KeyError\<close> with the frame already on the stack.
\<close>

definition function_call :: "'f host \<Rightarrow> 'f vm \<Rightarrow> 'f val list \<Rightarrow> exn option \<times> 'f vm" where
  "function_call P vm ops =
     (case unpack3 ops of
        None \<Rightarrow> (Some (unpack_error P 3 ops), vm)
      | Some (func_name_label, num_params_expected, return_var) \<Rightarrow>
          (case py_int P num_params_expected of
             Inl e \<Rightarrow> (Some e, vm)
           | Inr n \<Rightarrow>
               if int (length (current_params vm)) \<noteq> n then
                 (Some (Exn ValueError
                    (''Function '' @ SQ @ py_str P func_name_label @ SQ @ '' expected ''
                     @ str_int n @ '' parameters, but received ''
                     @ str_nat (length (current_params vm)))), vm)
               else if \<not> hashable func_name_label then
                 (Some (unhashable P func_name_label),
                  vm\<lparr>call_stack := call_stack vm @ [new_frame P vm func_name_label return_var],
                     current_params := []\<rparr>)
               else
                 (case label_lookup (labels vm) func_name_label of
                    None \<Rightarrow>
                      (Some (Exn KeyError (repr_of P func_name_label)),
                       vm\<lparr>call_stack :=
                            call_stack vm @ [new_frame P vm func_name_label return_var],
                          current_params := []\<rparr>)
                  | Some target \<Rightarrow>
                      (None,
                       vm\<lparr>call_stack :=
                            call_stack vm @ [new_frame P vm func_name_label return_var],
                          current_params := [], pc := int target\<rparr>))))"

text \<open>
  \<^verbatim>\<open>self._get_operand_value(operands[0]) if operands else None\<close>, the first statement of
  the branch \<^verbatim>\<open>RETURN\<close>.
\<close>

definition return_operand :: "'f host \<Rightarrow> 'f vm \<Rightarrow> 'f val list \<Rightarrow> exn + 'f val" where
  "return_operand P vm ops = (if ops = [] then Inr VNone else get_operand_value P vm (hd ops))"

text \<open>\<^verbatim>\<open>old_frame = self.call_stack.pop(); self.pc = old_frame.return_address\<close>.\<close>

definition pop_frame :: "'f vm \<Rightarrow> 'f vm" where
  "pop_frame vm =
     vm\<lparr>call_stack := butlast (call_stack vm), pc := return_address (last (call_stack vm))\<rparr>"

text \<open>
  The branch \<^verbatim>\<open>RETURN\<close>. The value is read first, under the frame of the callee; the
  empty stack is checked next; then the frame is popped and the value stored under the
  new top of the stack.
\<close>

definition function_return :: "'f host \<Rightarrow> 'f vm \<Rightarrow> 'f val list \<Rightarrow> exn option \<times> 'f vm" where
  "function_return P vm ops =
     (case return_operand P vm ops of
        Inl e \<Rightarrow> (Some e, vm)
      | Inr return_value \<Rightarrow>
          if call_stack vm = [] then
            (Some (Exn RuntimeError ''RETURN instruction outside of a function call. Halting.''),
             vm)
          else if truthy P (return_var_name (last (call_stack vm))) then
            (case set_variable_value P (pop_frame vm) (return_var_name (last (call_stack vm)))
                    return_value of
               Inl e \<Rightarrow> (Some e, pop_frame vm)
             | Inr vm2 \<Rightarrow> (None, vm2))
          else (None, pop_frame vm))"

definition handle_function :: "'f host \<Rightarrow> 'f vm \<Rightarrow> 'f instruction \<Rightarrow> exn option \<times> 'f vm" where
  "handle_function P vm instr =
     (if opcode instr = ''PARAM'' then function_param P vm (operands instr)
      else if opcode instr = ''REF_PARAM'' then function_ref_param P vm (operands instr)
      else if opcode instr = ''CALL'' then function_call P vm (operands instr)
      else if opcode instr = ''RETURN'' then function_return P vm (operands instr)
      else (None, vm))"

text \<open>\<^verbatim>\<open>for addr in allocated_addresses: self.heap[addr] = None\<close>.\<close>

definition clear_slots :: "nat list \<Rightarrow> 'f val list \<Rightarrow> 'f val list" where
  "clear_slots addrs h = fold (\<lambda>a h'. h'[a := VNone]) addrs h"

text \<open>
  The branch \<^verbatim>\<open>ALLOC_HEAP\<close> of \<^verbatim>\<open>VM._handle_heap\<close>, up to the store of the first
  address.
\<close>

definition heap_alloc :: "'f host \<Rightarrow> 'f vm \<Rightarrow> 'f val list \<Rightarrow> exn option \<times> 'f vm" where
  "heap_alloc P vm ops =
     (case unpack2 ops of
        None \<Rightarrow> (Some (unpack_error P 2 ops), vm)
      | Some (target_ptr_var, size_var_or_literal) \<Rightarrow>
          (case get_operand_value P vm size_var_or_literal of
             Inl e \<Rightarrow> (Some e, vm)
           | Inr size_value \<Rightarrow>
               if as_int size_value = None \<or> the (as_int size_value) \<le> 0 then
                 (Some (Exn ValueError
                    (''ALLOC_HEAP size must be a positive integer, got '' @ SQ
                     @ py_str P size_value @ SQ)), vm)
               else
                 (let allocated = allocate_slots (nat (the (as_int size_value))) vm;
                      vm1 = (snd allocated)\<lparr>heap :=
                              clear_slots (fst allocated) (heap (snd allocated))\<rparr>
                  in if fst allocated = [] then
                       (Some (Exn MemoryError
                          (''Failed to allocate heap memory for size '' @ py_str P size_value)),
                        vm1)
                     else
                       (case set_variable_value P vm1 target_ptr_var
                               (VInt (int (hd (fst allocated)))) of
                          Inl e \<Rightarrow> (Some e, vm1)
                        | Inr vm2 \<Rightarrow> (None, advance vm2)))))"

text \<open>The branch \<^verbatim>\<open>FREE_HEAP\<close>.\<close>

definition heap_free :: "'f host \<Rightarrow> 'f vm \<Rightarrow> 'f val list \<Rightarrow> exn option \<times> 'f vm" where
  "heap_free P vm ops =
     (if ops = [] then (Some (no_operand P), vm)
      else
        (case get_operand_value P vm (hd ops) of
           Inl e \<Rightarrow> (Some e, vm)
         | Inr ptr_addr \<Rightarrow>
             if heap_index vm ptr_addr = None then
               (None, advance (log_console vm
                  (''Warning: FREE_HEAP called with invalid address: ''
                   @ py_str P ptr_addr @ NL)))
             else
               (None, advance (log_console (free_heap_slot P vm ptr_addr)
                  (''Note: Simplified FREE_HEAP for address '' @ py_str P ptr_addr
                   @ '' called.'' @ NL)))))"

text \<open>The branch \<^verbatim>\<open>ADDR_OF\<close>.\<close>

definition heap_addr_of :: "'f host \<Rightarrow> 'f vm \<Rightarrow> 'f val list \<Rightarrow> exn option \<times> 'f vm" where
  "heap_addr_of P vm ops =
     (case unpack2 ops of
        None \<Rightarrow> (Some (unpack_error P 2 ops), vm)
      | Some (target_ptr_var, source_var) \<Rightarrow>
          (case get_variable_address P vm source_var of
             Inl e \<Rightarrow> (Some e, vm)
           | Inr pointer \<Rightarrow> finish vm (set_variable_value P vm target_ptr_var pointer)))"

text \<open>The branch \<^verbatim>\<open>DEREF_LOAD\<close>.\<close>

definition heap_deref_load :: "'f host \<Rightarrow> 'f vm \<Rightarrow> 'f val list \<Rightarrow> exn option \<times> 'f vm" where
  "heap_deref_load P vm ops =
     (case unpack2 ops of
        None \<Rightarrow> (Some (unpack_error P 2 ops), vm)
      | Some (target_var, ptr_var) \<Rightarrow>
          (case get_operand_value P vm ptr_var of
             Inl e \<Rightarrow> (Some e, vm)
           | Inr pointer \<Rightarrow>
               (case get_value_from_pointer P vm pointer of
                  Inl e \<Rightarrow> (Some e, vm)
                | Inr v \<Rightarrow> finish vm (set_variable_value P vm target_var v))))"

text \<open>The branch \<^verbatim>\<open>DEREF_STORE\<close>.\<close>

definition heap_deref_store :: "'f host \<Rightarrow> 'f vm \<Rightarrow> 'f val list \<Rightarrow> exn option \<times> 'f vm" where
  "heap_deref_store P vm ops =
     (case unpack2 ops of
        None \<Rightarrow> (Some (unpack_error P 2 ops), vm)
      | Some (ptr_var, value_source) \<Rightarrow>
          (case get_operand_value P vm ptr_var of
             Inl e \<Rightarrow> (Some e, vm)
           | Inr pointer \<Rightarrow>
               (case get_operand_value P vm value_source of
                  Inl e \<Rightarrow> (Some e, vm)
                | Inr value_to_store \<Rightarrow>
                    finish vm (set_value_at_pointer P vm pointer value_to_store))))"

text \<open>
  The checks that \<^verbatim>\<open>INDEX_LOAD\<close> and \<^verbatim>\<open>INDEX_STORE\<close> share, with the name of the
  instruction for the messages: the effective address, or the exception.
\<close>

definition effective_address ::
  "'f host \<Rightarrow> string \<Rightarrow> 'f vm \<Rightarrow> 'f val \<Rightarrow> 'f val \<Rightarrow> 'f val \<Rightarrow> exn + nat" where
  "effective_address P what vm base_ptr_var base_addr index_val =
     (if heap_index vm base_addr = None then
        Inl (Exn ValueError
               (what @ '' error: Invalid base address '' @ SQ @ py_str P base_addr @ SQ
                @ '' in '' @ SQ @ py_str P base_ptr_var @ SQ))
      else if as_int index_val = None then
        Inl (Exn ValueError
               (what @ '' error: Index must be an integer, got '' @ SQ @ py_str P index_val
                @ SQ))
      else if \<not> (0 \<le> the (as_int base_addr) + the (as_int index_val)
                \<and> the (as_int base_addr) + the (as_int index_val) < int (length (heap vm)))
      then
        Inl (Exn IndexError
               (what @ '' error: Address ''
                @ str_int (the (as_int base_addr) + the (as_int index_val))
                @ '' is out of bounds.''))
      else Inr (nat (the (as_int base_addr) + the (as_int index_val))))"

text \<open>The branch \<^verbatim>\<open>INDEX_LOAD\<close>.\<close>

definition heap_index_load :: "'f host \<Rightarrow> 'f vm \<Rightarrow> 'f val list \<Rightarrow> exn option \<times> 'f vm" where
  "heap_index_load P vm ops =
     (case unpack3 ops of
        None \<Rightarrow> (Some (unpack_error P 3 ops), vm)
      | Some (target_var, base_ptr_var, index_var) \<Rightarrow>
          (case get_operand_value P vm base_ptr_var of
             Inl e \<Rightarrow> (Some e, vm)
           | Inr base_addr \<Rightarrow>
               (case get_operand_value P vm index_var of
                  Inl e \<Rightarrow> (Some e, vm)
                | Inr index_val \<Rightarrow>
                    (case effective_address P ''INDEX_LOAD'' vm base_ptr_var base_addr
                            index_val of
                       Inl e \<Rightarrow> (Some e, vm)
                     | Inr a \<Rightarrow> finish vm (set_variable_value P vm target_var (heap vm ! a))))))"

text \<open>The branch \<^verbatim>\<open>INDEX_STORE\<close>: the three operands are read before any check.\<close>

definition heap_index_store :: "'f host \<Rightarrow> 'f vm \<Rightarrow> 'f val list \<Rightarrow> exn option \<times> 'f vm" where
  "heap_index_store P vm ops =
     (case unpack3 ops of
        None \<Rightarrow> (Some (unpack_error P 3 ops), vm)
      | Some (base_ptr_var, index_var, value_source) \<Rightarrow>
          (case get_operand_value P vm base_ptr_var of
             Inl e \<Rightarrow> (Some e, vm)
           | Inr base_addr \<Rightarrow>
               (case get_operand_value P vm index_var of
                  Inl e \<Rightarrow> (Some e, vm)
                | Inr index_val \<Rightarrow>
                    (case get_operand_value P vm value_source of
                       Inl e \<Rightarrow> (Some e, vm)
                     | Inr value_to_store \<Rightarrow>
                         (case effective_address P ''INDEX_STORE'' vm base_ptr_var base_addr
                                 index_val of
                            Inl e \<Rightarrow> (Some e, vm)
                          | Inr a \<Rightarrow>
                              (None, advance (vm\<lparr>heap := (heap vm)[a := value_to_store]\<rparr>)))))))"

definition handle_heap :: "'f host \<Rightarrow> 'f vm \<Rightarrow> 'f instruction \<Rightarrow> exn option \<times> 'f vm" where
  "handle_heap P vm instr =
     (if opcode instr = ''ALLOC_HEAP'' then heap_alloc P vm (operands instr)
      else if opcode instr = ''FREE_HEAP'' then heap_free P vm (operands instr)
      else if opcode instr = ''ADDR_OF'' then heap_addr_of P vm (operands instr)
      else if opcode instr = ''DEREF_LOAD'' then heap_deref_load P vm (operands instr)
      else if opcode instr = ''DEREF_STORE'' then heap_deref_store P vm (operands instr)
      else if opcode instr = ''INDEX_LOAD'' then heap_index_load P vm (operands instr)
      else if opcode instr = ''INDEX_STORE'' then heap_index_store P vm (operands instr)
      else (None, advance vm))"

text \<open>\<^verbatim>\<open>-v\<close>.\<close>

definition py_neg :: "'f host \<Rightarrow> 'f val \<Rightarrow> exn + 'f val" where
  "py_neg P v = (case as_int v of Some n \<Rightarrow> Inr (VInt (- n)) | None \<Rightarrow> negate P v)"

text \<open>The branch \<^verbatim>\<open>UMINUS\<close> of \<^verbatim>\<open>VM._handle_misc\<close>.\<close>

definition misc_uminus :: "'f host \<Rightarrow> 'f vm \<Rightarrow> 'f val list \<Rightarrow> exn option \<times> 'f vm" where
  "misc_uminus P vm ops =
     (case unpack2 ops of
        None \<Rightarrow> (Some (unpack_error P 2 ops), vm)
      | Some (target, source) \<Rightarrow>
          (case get_operand_value P vm source of
             Inl e \<Rightarrow> (Some e, vm)
           | Inr v \<Rightarrow>
               (case py_neg P v of
                  Inl e \<Rightarrow> (Some e, vm)
                | Inr r \<Rightarrow> finish vm (set_variable_value P vm target r))))"

definition handle_misc :: "'f host \<Rightarrow> 'f vm \<Rightarrow> 'f instruction \<Rightarrow> exn option \<times> 'f vm" where
  "handle_misc P vm instr =
     (if opcode instr = ''PRINT'' then
        (if operands instr = [] then (Some (no_operand P), vm)
         else
           (case get_operand_value P vm (hd (operands instr)) of
              Inl e \<Rightarrow> (Some e, vm)
            | Inr v \<Rightarrow> (None, advance (log_console vm (''Output: '' @ py_str P v @ NL)))))
      else if opcode instr = ''HALT'' then
        (None, log_console (advance (vm\<lparr>halted := True, running := False\<rparr>))
                 (''--- Program Halted ---'' @ NL))
      else if opcode instr = ''UMINUS'' then misc_uminus P vm (operands instr)
      else (None, vm))"

subsection \<open>\<^verbatim>\<open>VM.step\<close>\<close>

datatype handler =
    Assignment | Arithmetic | String_handler | Jump | Function | Misc | Heap

text \<open>The dispatch table \<^verbatim>\<open>self.opcode_handlers\<close>.\<close>

definition opcode_handlers :: "(string \<times> handler) list" where
  "opcode_handlers =
     [(''ASSIGN'', Assignment), (''CONST_ASSIGN'', Assignment),
      (''ADD'', Arithmetic), (''SUB'', Arithmetic), (''MUL'', Arithmetic), (''DIV'', Arithmetic),
      (''MOD'', Arithmetic), (''EQ'', Arithmetic), (''NE'', Arithmetic), (''LT'', Arithmetic),
      (''LE'', Arithmetic), (''GT'', Arithmetic), (''GE'', Arithmetic), (''OR'', Arithmetic),
      (''AND'', Arithmetic),
      (''CONCAT'', String_handler), (''STRLEN'', String_handler), (''GETCHAR'', String_handler),
      (''JUMP'', Jump), (''JUMPT'', Jump), (''JUMPF'', Jump),
      (''PARAM'', Function), (''REF_PARAM'', Function), (''CALL'', Function),
      (''RETURN'', Function),
      (''PRINT'', Misc), (''HALT'', Misc), (''UMINUS'', Misc),
      (''ALLOC_HEAP'', Heap), (''FREE_HEAP'', Heap), (''ADDR_OF'', Heap),
      (''DEREF_LOAD'', Heap), (''DEREF_STORE'', Heap), (''INDEX_LOAD'', Heap),
      (''INDEX_STORE'', Heap)]"

fun run_handler :: "handler \<Rightarrow> 'f host \<Rightarrow> 'f vm \<Rightarrow> 'f instruction \<Rightarrow> exn option \<times> 'f vm" where
  "run_handler Assignment = handle_assignment"
| "run_handler Arithmetic = handle_arithmetic"
| "run_handler String_handler = handle_string"
| "run_handler Jump = handle_jump"
| "run_handler Function = handle_function"
| "run_handler Misc = handle_misc"
| "run_handler Heap = handle_heap"

text \<open>The body of the \<^verbatim>\<open>try\<close> block up to the handler's return.\<close>

definition dispatch :: "'f host \<Rightarrow> 'f vm \<Rightarrow> 'f instruction \<Rightarrow> exn option \<times> 'f vm" where
  "dispatch P vm instr =
     (case map_of opcode_handlers (opcode instr) of
        Some h \<Rightarrow> run_handler h P vm instr
      | None \<Rightarrow>
          (Some (Exn NotImplementedError
                   (''Unknown or unsupported opcode: '' @ opcode instr)), vm))"

text \<open>The \<^verbatim>\<open>except\<close> block: the machine stops running and the message goes to the console.\<close>

definition error_msg :: "'f instruction \<Rightarrow> 'f vm \<Rightarrow> exn \<Rightarrow> string" where
  "error_msg instr vm e =
     (case e of Exn cls text \<Rightarrow>
        ''Runtime Error at 3AC line '' @ str_nat (line_num instr) @ '' (PC='' @ str_int (pc vm)
        @ ''): '' @ text @ NL)"

text \<open>
  What a call of \<^verbatim>\<open>step\<close> does: it returns a boolean, or an exception leaves it (the
  indexing \<^verbatim>\<open>self.program[self.pc]\<close> stands before the \<^verbatim>\<open>try\<close> block).
\<close>

datatype step_result = Returned bool | Escaped exn

text \<open>\<^verbatim>\<open>self.program[self.pc]\<close>: a negative index counts from the end.\<close>

definition fetch :: "'f vm \<Rightarrow> 'f instruction option" where
  "fetch vm =
     (let n = int (length (program vm)); j = (if pc vm < 0 then n + pc vm else pc vm)
      in if 0 \<le> j \<and> j < n then Some (program vm ! nat j) else None)"

text \<open>
  \<^verbatim>\<open>VM.step\<close>. The dialog \<^verbatim>\<open>messagebox.showerror\<close> of the \<^verbatim>\<open>except\<close> block changes
  nothing in the machine and is left out.
\<close>

definition step :: "'f host \<Rightarrow> 'f vm \<Rightarrow> step_result \<times> 'f vm" where
  "step P vm =
     (if \<not> running vm \<or> halted vm \<or> pc vm \<ge> int (length (program vm)) then
        (Returned False, vm\<lparr>running := False\<rparr>)
      else
        (case fetch vm of
           None \<Rightarrow> (Escaped (no_operand P), vm)
         | Some instr \<Rightarrow>
             (case dispatch P vm instr of
                (None, vm1) \<Rightarrow> (Returned (running vm1), vm1)
              | (Some e, vm1) \<Rightarrow>
                  (Returned False,
                   log_console (vm1\<lparr>running := False\<rparr>)
                     (''!!! '' @ error_msg instr vm1 e)))))"

subsection \<open>State export and import (\<^verbatim>\<open>controller.py\<close>)\<close>

text \<open>
  \<^verbatim>\<open>export_vm_state\<close> writes a dictionary with \<^verbatim>\<open>json.dump\<close> and \<^verbatim>\<open>import_vm_state\<close>
  reads it back with \<^verbatim>\<open>json.load\<close>. The dictionary has the keys \<^verbatim>\<open>pc\<close>,
  \<^verbatim>\<open>global_memory\<close>, \<^verbatim>\<open>call_stack\<close> and \<^verbatim>\<open>heap\<close>; an entry of \<^verbatim>\<open>call_stack\<close> has the
  five fields of a frame.
\<close>

record 'f vm_state =
  st_pc :: int
  st_global_memory :: "'f dict"
  st_call_stack :: "'f stack_frame list"
  st_heap :: "'f dict"

text \<open>\<^verbatim>\<open>{i: v for i, v in enumerate(self.vm.heap) if v is not None}\<close>.\<close>

definition active_heap :: "'f val list \<Rightarrow> 'f dict" where
  "active_heap h =
     map (\<lambda>i. (VInt (int i), h ! i)) (filter (\<lambda>i. h ! i \<noteq> VNone) [0..<length h])"

text \<open>The dictionary \<^verbatim>\<open>vm_state\<close> that \<^verbatim>\<open>export_vm_state\<close> builds.\<close>

definition export_vm_state :: "'f vm \<Rightarrow> 'f vm_state" where
  "export_vm_state vm =
     \<lparr>st_pc = pc vm, st_global_memory = global_memory vm, st_call_stack = call_stack vm,
      st_heap = active_heap (heap vm)\<rparr>"

text \<open>
  What \<^verbatim>\<open>json.dump\<close> followed by \<^verbatim>\<open>json.load\<close> makes of a value: JSON has one array
  type, so a tuple is written as an array and read back as a list; \<^verbatim>\<open>None\<close>, booleans,
  numbers and strings come back as they were.
\<close>

fun json_value :: "'f val \<Rightarrow> 'f val" where
  "json_value (VTuple xs) = VList (map json_value xs)"
| "json_value (VList xs) = VList (map json_value xs)"
| "json_value VNone = VNone"
| "json_value (VBool b) = VBool b"
| "json_value (VInt n) = VInt n"
| "json_value (VFloat f) = VFloat f"
| "json_value (VStr s) = VStr s"

text \<open>
  The key of a JSON object is a string: \<^verbatim>\<open>json.dump\<close> writes a string key as it is, an
  integer in decimal, a boolean as \<^verbatim>\<open>true\<close> or \<^verbatim>\<open>false\<close>, \<^verbatim>\<open>None\<close> as \<^verbatim>\<open>null\<close>, a
  float by its \<^verbatim>\<open>repr\<close>, and raises \<^verbatim>\<open>TypeError\<close> on any other key.
\<close>

fun json_key :: "'f host \<Rightarrow> 'f val \<Rightarrow> string option" where
  "json_key P (VStr s) = Some s"
| "json_key P (VBool b) = Some (if b then ''true'' else ''false'')"
| "json_key P (VInt n) = Some (str_int n)"
| "json_key P VNone = Some ''null''"
| "json_key P (VFloat f) = Some (repr_of P (VFloat f))"
| "json_key P (VTuple xs) = None"
| "json_key P (VList xs) = None"

text \<open>
  A dictionary written and read back, item by item onto \<open>acc\<close>: \<open>None\<close> when a key
  cannot be written.
\<close>

fun json_dict :: "'f host \<Rightarrow> 'f dict \<Rightarrow> 'f dict \<Rightarrow> 'f dict option" where
  "json_dict P [] acc = Some acc"
| "json_dict P ((k, v) # d) acc =
     (case json_key P k of
        None \<Rightarrow> None
      | Some s \<Rightarrow> json_dict P d (dict_set P acc (VStr s) (json_value v)))"

definition json_frame :: "'f host \<Rightarrow> 'f stack_frame \<Rightarrow> 'f stack_frame option" where
  "json_frame P fr =
     (case (json_dict P (locals fr) [], json_dict P (params fr) []) of
        (Some l, Some p) \<Rightarrow>
          Some \<lparr>func_name = json_value (func_name fr), return_address = return_address fr,
                return_var_name = json_value (return_var_name fr), locals = l, params = p\<rparr>
      | _ \<Rightarrow> None)"

fun json_frames :: "'f host \<Rightarrow> 'f stack_frame list \<Rightarrow> 'f stack_frame list option" where
  "json_frames P [] = Some []"
| "json_frames P (fr # frs) =
     (case (json_frame P fr, json_frames P frs) of
        (Some fr', Some frs') \<Rightarrow> Some (fr' # frs')
      | _ \<Rightarrow> None)"

text \<open>
  The exported dictionary as \<^verbatim>\<open>import_vm_state\<close> reads it from the file that
  \<^verbatim>\<open>export_vm_state\<close> wrote; \<open>None\<close> when \<^verbatim>\<open>json.dump\<close> raises.
\<close>

definition json_roundtrip :: "'f host \<Rightarrow> 'f vm_state \<Rightarrow> 'f vm_state option" where
  "json_roundtrip P st =
     (case (json_dict P (st_global_memory st) [], json_frames P (st_call_stack st),
            json_dict P (st_heap st) []) of
        (Some g, Some frs, Some h) \<Rightarrow>
          Some \<lparr>st_pc = st_pc st, st_global_memory = g, st_call_stack = frs, st_heap = h\<rparr>
      | _ \<Rightarrow> None)"

text \<open>\<^verbatim>\<open>int(addr_str)\<close> on a key of the heap object.\<close>

definition int_of_key :: "'f host \<Rightarrow> 'f val \<Rightarrow> exn + int" where
  "int_of_key P k =
     (case k of
        VStr s \<Rightarrow> if is_int_literal s then Inr (int_of_literal s) else int_of P k
      | _ \<Rightarrow> py_int P k)"

text \<open>
  The loop over \<^verbatim>\<open>active_heap_from_file.items()\<close>: a value is stored when its address is
  inside the heap.
\<close>

fun import_heap :: "'f host \<Rightarrow> 'f dict \<Rightarrow> 'f val list \<Rightarrow> exn option \<times> 'f val list" where
  "import_heap P [] h = (None, h)"
| "import_heap P ((addr_str, v) # items) h =
     (case int_of_key P addr_str of
        Inl e \<Rightarrow> (Some e, h)
      | Inr addr \<Rightarrow>
          import_heap P items
            (if 0 \<le> addr \<and> addr < int (length h) then h[nat addr := v] else h))"

text \<open>\<^verbatim>\<open>[i for i, v in enumerate(self.vm.heap) if v is None]\<close>.\<close>

definition free_list_of :: "'f val list \<Rightarrow> nat list" where
  "free_list_of h = filter (\<lambda>i. h ! i = VNone) [0..<length h]"

text \<open>
  The body of \<^verbatim>\<open>import_vm_state\<close> after the file has been read. The heap keeps the
  length it has in the importing machine. An exception (caught by the controller) leaves
  the fields assigned so far.
\<close>

definition import_vm_state :: "'f host \<Rightarrow> 'f vm \<Rightarrow> 'f vm_state \<Rightarrow> exn option \<times> 'f vm" where
  "import_vm_state P vm st =
     (let vm1 = vm\<lparr>pc := st_pc st, global_memory := st_global_memory st,
                   call_stack := st_call_stack st,
                   heap := replicate (length (heap vm)) VNone\<rparr>
      in case import_heap P (st_heap st) (heap vm1) of
           (Some e, h) \<Rightarrow> (Some e, vm1\<lparr>heap := h\<rparr>)
         | (None, h) \<Rightarrow> (None, vm1\<lparr>heap := h, free_heap_slots := free_list_of h\<rparr>))"

text \<open>Export, the file, import: the machine after both, when the export succeeds.\<close>

definition export_then_import :: "'f host \<Rightarrow> 'f vm \<Rightarrow> (exn option \<times> 'f vm) option" where
  "export_then_import P vm =
     (case json_roundtrip P (export_vm_state vm) of
        None \<Rightarrow> None
      | Some st \<Rightarrow> Some (import_vm_state P vm st))"

subsection \<open>Running programs\<close>

text \<open>\<open>n\<close> calls of \<^verbatim>\<open>step\<close> in a row, whatever each returns.\<close>

fun run_steps :: "'f host \<Rightarrow> nat \<Rightarrow> 'f vm \<Rightarrow> 'f vm" where
  "run_steps P 0 vm = vm"
| "run_steps P (Suc n) vm = run_steps P n (snd (step P vm))"

text \<open>
  A host for the closed examples below. Their programs hold no float and reach none of
  the host's operations, which all answer with a fixed value here.
\<close>

definition plain_host :: "unit host" where
  "plain_host =
     \<lparr>float_of_str = (\<lambda>s. ()),
      float_eq = (\<lambda>a b. True),
      float_eq_int = (\<lambda>a n. False),
      int_of = (\<lambda>v. Inl (Exn TypeError ''int'')),
      binop = (\<lambda>opc a b. Inl (Exn TypeError opc)),
      negate = (\<lambda>v. Inl (Exn TypeError ''neg'')),
      str_of = (\<lambda>v. ''?''),
      repr_of = (\<lambda>v. ''?''),
      host_text = (\<lambda>f. ''?'')\<rparr>"

text \<open>A machine as \<^verbatim>\<open>VM(console)\<close> builds it, with an empty console widget.\<close>

definition fresh_vm :: "unit vm" where
  "fresh_vm = init_vm (Some [])"

text \<open>The programs of the closed examples below.\<close>

definition nested_calls :: "string list" where
  "nested_calls =
     [''CALL f, 0, r'', ''HALT'', ''f:'', ''CALL g, 0, t'', ''RETURN t'', ''g:'', ''RETURN 7'']"

definition by_reference :: "string list" where
  "by_reference =
     [''CONST_ASSIGN x, 5'', ''REF_PARAM x'', ''CALL f, 1, r'', ''HALT'',
      ''f:'', ''ASSIGN y, ARG0'', ''RETURN y'']"

definition address_taken :: "string list" where
  "address_taken = [''ADDR_OF p, x'']"

section \<open>Properties\<close>

subsection \<open>The heap allocator\<close>

lemma load_program_heap:
  "heap (snd (load_program P vm ls)) = replicate 100 VNone"
  "free_heap_slots (snd (load_program P vm ls)) = [0..<100]"
  by (auto simp: load_program_def reset_state_def Let_def split: prod.splits option.splits)

text \<open>As long as the free list is long enough, allocation takes its slots from the front.\<close>

lemma allocate_slots_prefix:
  "free_heap_slots vm = xs @ rest \<Longrightarrow>
   allocate_slots (length xs) vm = (xs, vm\<lparr>free_heap_slots := rest\<rparr>)"
proof (induction xs arbitrary: vm)
  case Nil
  then show ?case by simp
next
  case (Cons x xs)
  have a: "allocate_heap_slot vm = (x, vm\<lparr>free_heap_slots := xs @ rest\<rparr>)"
    using Cons.prems by (simp add: allocate_heap_slot_def)
  have "allocate_slots (length xs) (vm\<lparr>free_heap_slots := xs @ rest\<rparr>)
        = (xs, vm\<lparr>free_heap_slots := xs @ rest, free_heap_slots := rest\<rparr>)"
    by (rule Cons.IH) simp
  then show ?case using a by simp
qed

text \<open>
  Allocate, free, allocate twice on a machine whose heap is fresh: the addresses are 0,
  then 1 and 2, and the freed slot 0 is the last of the next hundred.
\<close>

lemma fifo_on_fresh_heap:
  assumes h0: "heap s0 = replicate 100 VNone" and f0: "free_heap_slots s0 = [0..<100]"
  shows "fst (allocate_heap_slot s0) = 0"
    and "fst (allocate_heap_slot (free_heap_slot P (snd (allocate_heap_slot s0)) (VInt 0))) = 1"
    and "fst (allocate_heap_slot (snd (allocate_heap_slot
           (free_heap_slot P (snd (allocate_heap_slot s0)) (VInt 0))))) = 2"
    and "fst (allocate_slots 100 (free_heap_slot P (snd (allocate_heap_slot s0)) (VInt 0)))
         = [1..<100] @ [0]"
proof -
  have a1: "allocate_heap_slot s0 = (0, s0\<lparr>free_heap_slots := [1..<100]\<rparr>)"
    using f0 by (simp add: allocate_heap_slot_def upt_conv_Cons)
  define s2 where "s2 = free_heap_slot P (snd (allocate_heap_slot s0)) (VInt 0)"
  have f2: "free_heap_slots s2 = [1..<100] @ [0]"
    unfolding s2_def a1 using h0 by (simp add: free_heap_slot_def heap_index_def)
  have f2': "free_heap_slots s2 = 1 # 2 # ([3..<100] @ [0])"
    unfolding f2 by (simp add: upt_conv_Cons)
  have a2: "allocate_heap_slot s2 = (1, s2\<lparr>free_heap_slots := 2 # ([3..<100] @ [0])\<rparr>)"
    using f2' by (simp add: allocate_heap_slot_def)
  show "fst (allocate_heap_slot s0) = 0"
    using a1 by simp
  show "fst (allocate_heap_slot s2) = 1"
    using a2 by simp
  show "fst (allocate_heap_slot (snd (allocate_heap_slot s2))) = 2"
    using a2 by (simp add: allocate_heap_slot_def)
  have "allocate_slots (length ([1..<100] @ [0])) s2
        = ([1..<100] @ [0], s2\<lparr>free_heap_slots := []\<rparr>)"
    by (rule allocate_slots_prefix) (simp add: f2)
  then show "fst (allocate_slots 100 s2) = [1..<100] @ [0]"
    by simp
qed

text \<open>
  Claim C3, as the specification states it: on a freshly loaded engine, allocate a slot
  \<open>A\<close>, free it, allocate two more slots; the first of the two is \<open>A\<close>. The machine does
  otherwise: \<open>A\<close> is 0 and the next allocation returns 1.
\<close>

theorem heap_reuse_counterexample:
  "(let s0 = snd (load_program plain_host fresh_vm [''HALT'']);
        A = fst (allocate_heap_slot s0);
        s2 = free_heap_slot plain_host (snd (allocate_heap_slot s0)) (VInt (int A))
    in fst (allocate_heap_slot s2) \<noteq> A)"
  by (simp add: Let_def fifo_on_fresh_heap(1,2) [OF load_program_heap(1) load_program_heap(2)])

text \<open>
  Claim C3, amended: on a freshly loaded engine (whatever the program, and whether or not
  loading succeeded), allocate a slot \<open>A\<close>, free it, allocate two more slots \<open>B\<close> and
  \<open>C\<close>. Then \<open>A = 0\<close>, \<open>B = 1\<close> and \<open>C = 2\<close>: the freed slot went to the tail of the
  free list, and it is the last address that the next hundred allocations return.
\<close>

theorem heap_reuse_is_fifo:
  "(let s0 = snd (load_program P vm ls);
        A = fst (allocate_heap_slot s0);
        s2 = free_heap_slot P (snd (allocate_heap_slot s0)) (VInt (int A));
        B = fst (allocate_heap_slot s2);
        C = fst (allocate_heap_slot (snd (allocate_heap_slot s2)))
    in A = 0 \<and> B = 1 \<and> C = 2 \<and> fst (allocate_slots 100 s2) = [1..<100] @ [A])"
  by (simp add: Let_def fifo_on_fresh_heap [OF load_program_heap(1) load_program_heap(2)])

subsection \<open>The loader: operands\<close>

lemma strip_id:
  assumes "s \<noteq> []" "\<not> is_space (hd s)" "\<not> is_space (last s)"
  shows "strip s = s"
proof -
  have 1: "dropWhile is_space s = s" using assms by (cases s) auto
  have "rev s \<noteq> []" "\<not> is_space (hd (rev s))" using assms by (auto simp: hd_rev)
  then have 2: "dropWhile is_space (rev s) = rev s" by (cases "rev s") auto
  show ?thesis by (simp add: strip_def 1 2)
qed

lemma split_comma_no_comma: "CHR '','' \<notin> set s \<Longrightarrow> split_comma s = [s]"
  by (induction s) auto

lemma split_comma_nonempty [simp]: "split_comma s \<noteq> []"
  by (induction s) auto

lemma length_split_comma: "length (split_comma s) = Suc (count_list s (CHR '',''))"
proof (induction s)
  case Nil
  then show ?case by simp
next
  case (Cons c s)
  have "length (tl (split_comma s)) = count_list s (CHR '','')"
    using Cons by simp
  then show ?case using Cons by simp
qed

lemma parse_quoted: "parse_operand_value P (DQ @ q @ DQ) = VStr q"
proof -
  have l1: "lower (DQ @ q @ DQ) \<noteq> ''true''" "lower (DQ @ q @ DQ) \<noteq> ''false''"
    by (auto simp: lower_def DQ_def is_upper_def)
  have s: "startswith (DQ @ q @ DQ) DQ" by (simp add: startswith_def DQ_def)
  have e: "endswith (DQ @ q @ DQ) DQ" by (simp add: endswith_def DQ_def)
  have b: "butlast (tl (DQ @ q @ DQ)) = q" by (simp add: DQ_def butlast_append)
  show ?thesis using l1 s e b by (simp add: parse_operand_value_def)
qed

lemma strip_quoted: "strip (DQ @ q @ DQ) = DQ @ q @ DQ"
  by (rule strip_id) (simp_all add: DQ_def is_space_def)

lemma parse_operands_quoted:
  assumes "CHR '','' \<notin> set q"
  shows "parse_operands P (DQ @ q @ DQ) = [VStr q]"
proof -
  have "CHR '','' \<notin> set (DQ @ q @ DQ)" using assms by (simp add: DQ_def)
  then have sc: "split_comma (DQ @ q @ DQ) = [DQ @ q @ DQ]" by (rule split_comma_no_comma)
  have ne: "DQ @ q @ DQ \<noteq> []" by (simp add: DQ_def)
  show ?thesis using ne by (simp add: parse_operands_def sc strip_quoted parse_quoted)
qed

lemma length_parse_operands:
  "length (parse_operands P (c # s)) = Suc (count_list (c # s) (CHR '',''))"
  by (simp only: parse_operands_def length_map length_split_comma list.simps if_False)

text \<open>A line that is an opcode, a blank and one quoted literal without comma or newline.\<close>

lemma load_quoted_line:
  assumes w: "w \<noteq> []" "list_all is_word w"
    and q: "CHR '','' \<notin> set q" "CHR 0x0A \<notin> set q"
  shows "load_lines P i [w @ '' '' @ DQ @ q @ DQ] raw lbl
         = (None, raw @ [\<lparr>opcode = upper w, operands = [VStr q], line_num = i\<rparr>], lbl)"
proof -
  define line where "line = w @ '' '' @ DQ @ q @ DQ"
  have hdw: "is_word (hd w)" using w by (cases w) auto
  have word_not_space: "\<And>c. is_word c \<Longrightarrow> \<not> is_space c \<and> c \<noteq> CHR ''#''"
    by (auto simp: is_word_def is_space_def is_digit_def is_upper_def is_lower_def Let_def)
  have st: "strip line = line"
    unfolding line_def using w hdw word_not_space
    by (intro strip_id) (auto simp: DQ_def is_space_def)
  have ne: "line \<noteq> []" using w by (simp add: line_def)
  have nc: "\<not> startswith line ''#''"
    using w hdw word_not_space by (cases w) (auto simp: startswith_def line_def)
  have ncol: "\<not> endswith line '':''"
    by (simp add: endswith_def line_def DQ_def)
  have tw: "takeWhile is_word line = w"
    unfolding line_def using w(2)
    by (simp add: takeWhile_append2 list_all_iff is_word_def is_digit_def is_upper_def is_lower_def)
  have dw: "dropWhile is_word line = '' '' @ DQ @ q @ DQ"
    unfolding line_def using w(2)
    by (simp add: dropWhile_append2 list_all_iff is_word_def is_digit_def is_upper_def is_lower_def)
  have rest: "takeWhile (\<lambda>c. c \<noteq> CHR 0x0A) (dropWhile is_space (dropWhile is_word line))
              = DQ @ q @ DQ"
    unfolding dw using q(2) by (auto simp: is_space_def DQ_def takeWhile_append2)
  have ml: "match_line line = Some (w, DQ @ q @ DQ)"
    using w(1) by (simp add: match_line_def tw rest)
  show ?thesis
    unfolding line_def[symmetric]
    using ne nc ncol by (simp add: st ml strip_quoted parse_operands_quoted[OF q(1)])
qed

text \<open>
  Claim C6, as the specification states it: a comma inside a double-quoted literal does
  not split the operand list, and the literal is one operand whose value is the text
  between the quotes. The loader splits at every comma: the line \<^verbatim>\<open>PRINT "a,b"\<close> loads
  with the two operands \<^verbatim>\<open>"a\<close> and \<^verbatim>\<open>b"\<close>, both read as names.
\<close>

theorem quoted_comma_counterexample:
  "operands (hd (program (snd (load_program plain_host fresh_vm
       [''PRINT '' @ DQ @ ''a,b'' @ DQ]))))
     = [VStr (DQ @ ''a''), VStr (''b'' @ DQ)]
   \<and> operands (hd (program (snd (load_program plain_host fresh_vm
       [''PRINT '' @ DQ @ ''a,b'' @ DQ]))))
     \<noteq> [VStr ''a,b'']"
  by code_simp

text \<open>
  Claim C6, amended: the loader splits the operand text at every comma, inside quotes
  too, so an operand text with \<open>n\<close> commas gives \<open>n + 1\<close> operands; a line that is an
  opcode followed by one double-quoted literal with no comma (and no newline) in it loads
  as one instruction with a single operand, the string between the quotes.
\<close>

theorem quoted_operand_without_comma:
  assumes "w \<noteq> []" and "list_all is_word w"
    and "CHR '','' \<notin> set q" and "CHR 0x0A \<notin> set q"
  shows "load_lines P i [w @ '' '' @ DQ @ q @ DQ] raw lbl
           = (None, raw @ [\<lparr>opcode = upper w, operands = [VStr q], line_num = i\<rparr>], lbl)
         \<and> length (parse_operands P (c # s)) = Suc (count_list (c # s) (CHR '',''))"
  using load_quoted_line [OF assms] length_parse_operands by blast

text \<open>The theorem at the line \<^verbatim>\<open>PRINT "a b"\<close> and the operand text \<^verbatim>\<open>x, y,z\<close>.\<close>

theorem quoted_operand_without_comma_witness:
  "load_lines plain_host 0 [''PRINT '' @ DQ @ ''a b'' @ DQ] [] Map.empty
     = (None, [\<lparr>opcode = ''PRINT'', operands = [VStr ''a b''], line_num = 0\<rparr>], Map.empty)
   \<and> length (parse_operands plain_host ''x, y,z'') = 3"
  using quoted_operand_without_comma
          [of "''PRINT''" "''a b''" plain_host 0 "[]" Map.empty "CHR ''x''" "'', y,z''"]
  by (simp add: is_word_def is_digit_def is_upper_def is_lower_def upper_def)

subsection \<open>The loader: labels\<close>



text \<open>The second loop keeps the length of the program, also when it raises.\<close>

lemma resolve_labels_length: "length (snd (resolve_labels P lbl prog)) = length prog"
  by (induction prog) (auto split: list.splits option.splits)



text \<open>
  When every jump has an operand and the label of one is missing from the table, the
  second loop raises the undefined-label error (at the first such jump).
\<close>

lemma resolve_labels_fails:
  assumes "\<forall>ins\<in>set prog. is_jump (opcode ins) \<longrightarrow> operands ins \<noteq> []"
    and "\<exists>ins\<in>set prog. is_jump (opcode ins) \<and> label_lookup lbl (hd (operands ins)) = None"
  shows "\<exists>t ln. fst (resolve_labels P lbl prog)
           = Some (Exn ValueError (''Undefined label '' @ SQ @ py_str P t @ SQ
                                   @ '' at 3AC line '' @ str_nat ln))
         \<and> label_lookup lbl t = None"
  using assms
proof (induction prog)
  case Nil
  then show ?case by simp
next
  case (Cons ins prog)
  show ?case
  proof (cases "is_jump (opcode ins)")
    case False
    then have "\<exists>i\<in>set prog. is_jump (opcode i) \<and> label_lookup lbl (hd (operands i)) = None"
      using Cons.prems(2) by auto
    with Cons.IH Cons.prems(1) False show ?thesis by simp
  next
    case True
    then obtain t ts where ops: "operands ins = t # ts"
      using Cons.prems(1) by (cases "operands ins") auto
    show ?thesis
    proof (cases "label_lookup lbl t")
      case None
      then show ?thesis using True ops by auto
    next
      case (Some n)
      then have "\<exists>i\<in>set prog. is_jump (opcode i) \<and> label_lookup lbl (hd (operands i)) = None"
        using Cons.prems(2) ops by auto
      with Cons.IH Cons.prems(1) True ops Some show ?thesis by simp
    qed
  qed
qed

text \<open>A key enters the label table only through a line that is the name and a colon.\<close>

lemma load_lines_defines:
  assumes "load_lines P i ls raw lbl = (e, raw', lbl')" and "lbl' name = Some n"
  shows "lbl name = Some n \<or> (\<exists>l\<in>set ls. strip l = name @ '':'')"
  using assms
proof (induction P i ls raw lbl rule: load_lines.induct)
  case (1 P i raw lbl)
  then show ?case by auto
next
  case (2 P i l ls raw lbl)
  show ?case
  proof (cases "strip l = [] \<or> startswith (strip l) ''#''")
    case True
    then show ?thesis using 2 by auto
  next
    case False
    note nb = this
    show ?thesis
    proof (cases "endswith (strip l) '':''")
      case True
      have run: "load_lines P (Suc i) ls raw (lbl(butlast (strip l) \<mapsto> length raw)) = (e, raw', lbl')"
        using "2.prems"(1) nb True by simp
      have sl: "strip l = butlast (strip l) @ '':''"
        using True nb by (cases "strip l" rule: rev_cases) (auto simp: endswith_def)
      from "2.IH"(2)[OF nb True run "2.prems"(2)]
      show ?thesis using sl by (auto split: if_splits)
    next
      case False
      note nl = this
      show ?thesis
      proof (cases "match_line (strip l)")
        case None
        then show ?thesis using "2.prems" nb nl by auto
      next
        case (Some a)
        obtain w rest where a: "a = (w, rest)" by (cases a)
        have run: "load_lines P (Suc i) ls (raw @ [\<lparr>opcode = upper w, operands = parse_operands P (strip rest), line_num = i\<rparr>]) lbl = (e, raw', lbl')"
          using "2.prems"(1) nb nl Some a by simp
        from "2.IH"(3)[OF nb nl Some a[symmetric] run "2.prems"(2)]
        show ?thesis by auto
      qed
    qed
  qed
qed







text \<open>A machine that is not running does not execute anything.\<close>

lemma not_running_step: "\<not> running s \<Longrightarrow> step P s = (Returned False, s)"
  by (cases s) (simp add: step_def)

text \<open>
  Claim C2, amended: let the text have no malformed line, let every jump in it have an
  operand, and let one \<^verbatim>\<open>JUMP\<close>, \<^verbatim>\<open>JUMPT\<close> or \<^verbatim>\<open>JUMPF\<close> name a label that no line
  defines. Then loading raises the undefined-label error. The engine is left not running
  and not halted, so \<^verbatim>\<open>step\<close> returns false and changes nothing; but the instructions
  that were read stay in \<^verbatim>\<open>program\<close>.
\<close>

theorem undefined_label_load:
  assumes lines: "load_lines P 0 ls [] Map.empty = (None, raw, lbl)"
    and operand: "\<forall>i\<in>set raw. is_jump (opcode i) \<longrightarrow> operands i \<noteq> []"
    and jump: "ins \<in> set raw" "is_jump (opcode ins)" "operands ins = VStr name # ts"
    and undefined: "\<forall>l\<in>set ls. strip l \<noteq> name @ '':''"
  shows "(\<exists>t ln. fst (load_program P vm ls)
            = Some (Exn ValueError (''Undefined label '' @ SQ @ py_str P t @ SQ
                                    @ '' at 3AC line '' @ str_nat ln)))
         \<and> \<not> running (snd (load_program P vm ls))
         \<and> \<not> halted (snd (load_program P vm ls))
         \<and> program (snd (load_program P vm ls)) \<noteq> []
         \<and> length (program (snd (load_program P vm ls))) = length raw
         \<and> step P (snd (load_program P vm ls)) = (Returned False, snd (load_program P vm ls))"
proof -
  have "lbl name = None"
  proof (cases "lbl name")
    case (Some n)
    from load_lines_defines[OF lines Some] undefined show ?thesis by auto
  qed simp
  then have "label_lookup lbl (hd (operands ins)) = None"
    using jump(3) by simp
  then have "\<exists>i\<in>set raw. is_jump (opcode i) \<and> label_lookup lbl (hd (operands i)) = None"
    using jump(1,2) by blast
  from resolve_labels_fails[OF operand this, of P]
  obtain t ln where f: "fst (resolve_labels P lbl raw)
      = Some (Exn ValueError (''Undefined label '' @ SQ @ py_str P t @ SQ
                              @ '' at 3AC line '' @ str_nat ln))"
    by blast
  obtain prog where rl: "resolve_labels P lbl raw
      = (Some (Exn ValueError (''Undefined label '' @ SQ @ py_str P t @ SQ
                               @ '' at 3AC line '' @ str_nat ln)), prog)"
    using f by (cases "resolve_labels P lbl raw") auto
  have len: "length prog = length raw"
    using resolve_labels_length[of P lbl raw] rl by simp
  have ne: "raw \<noteq> []" using jump(1) by auto
  have lp: "load_program P vm ls
      = (Some (Exn ValueError (''Undefined label '' @ SQ @ py_str P t @ SQ
                               @ '' at 3AC line '' @ str_nat ln)),
         (reset_state vm)\<lparr>program := [], labels := Map.empty, labels := lbl, program := prog\<rparr>)"
    by (simp add: load_program_def Let_def lines rl)
  have nr: "\<not> running (snd (load_program P vm ls))" "\<not> halted (snd (load_program P vm ls))"
    by (simp_all add: lp reset_state_def)
  have pr: "program (snd (load_program P vm ls)) = prog" by (simp add: lp)
  show ?thesis
    using nr not_running_step[OF nr(1)] len ne unfolding pr by (auto simp: lp)
qed

text \<open>
  Claim C2, as the specification states it: whenever a jump names an undefined label,
  loading fails with the undefined-label error and leaves no program installed. For
  \<^verbatim>\<open>JUMP nowhere\<close> the error is raised but the instruction stays in \<^verbatim>\<open>program\<close>; and
  when a malformed line follows, the error is the syntax error of that line instead.
\<close>

theorem undefined_label_counterexample:
  "fst (load_program plain_host fresh_vm [''JUMP nowhere''])
     = Some (Exn ValueError (''Undefined label '' @ SQ @ ''nowhere'' @ SQ @ '' at 3AC line 0''))
   \<and> program (snd (load_program plain_host fresh_vm [''JUMP nowhere'']))
     = [\<lparr>opcode = ''JUMP'', operands = [VStr ''nowhere''], line_num = 0\<rparr>]
   \<and> fst (load_program plain_host fresh_vm [''JUMP nowhere'', ''!!''])
     = Some (Exn ValueError (''Syntax error at line 2: '' @ SQ @ ''!!'' @ SQ))"
  by code_simp

text \<open>The theorem at a program whose conditional jump names a label that no line defines.\<close>

theorem undefined_label_load_witness:
  "(\<exists>t ln. fst (load_program plain_host fresh_vm [''JUMPT nowhere, x'', ''here:'', ''HALT''])
            = Some (Exn ValueError (''Undefined label '' @ SQ @ py_str plain_host t @ SQ
                                    @ '' at 3AC line '' @ str_nat ln)))
   \<and> program (snd (load_program plain_host fresh_vm [''JUMPT nowhere, x'', ''here:'', ''HALT''])) \<noteq> []
   \<and> step plain_host (snd (load_program plain_host fresh_vm [''JUMPT nowhere, x'', ''here:'', ''HALT'']))
       = (Returned False, snd (load_program plain_host fresh_vm [''JUMPT nowhere, x'', ''here:'', ''HALT'']))"
proof -
  let ?L = "[''JUMPT nowhere, x'', ''here:'', ''HALT'']"
  let ?raw = "[\<lparr>opcode = ''JUMPT'', operands = [VStr ''nowhere'', VStr ''x''], line_num = 0\<rparr>,
               \<lparr>opcode = ''HALT'', operands = [], line_num = 2\<rparr>] :: unit instruction list"
  have "fst (load_lines plain_host 0 ?L [] Map.empty) = None"
    and "fst (snd (load_lines plain_host 0 ?L [] Map.empty)) = ?raw"
    by code_simp+
  then obtain lbl where lines: "load_lines plain_host 0 ?L [] Map.empty = (None, ?raw, lbl)"
    by (cases "load_lines plain_host 0 ?L [] Map.empty") auto
  have operand: "\<forall>i\<in>set ?raw. is_jump (opcode i) \<longrightarrow> operands i \<noteq> []"
    by (simp add: is_jump_def)
  have undefined: "\<forall>l\<in>set ?L. strip l \<noteq> ''nowhere'' @ '':''"
    by code_simp
  from undefined_label_load[OF lines operand _ _ _ undefined,
      of "\<lparr>opcode = ''JUMPT'', operands = [VStr ''nowhere'', VStr ''x''], line_num = 0\<rparr>"
         "[VStr ''x'']" fresh_vm]
  show ?thesis by (simp add: is_jump_def)
qed

subsection \<open>The dispatch engine: \<^verbatim>\<open>DIV\<close> by zero and \<^verbatim>\<open>GETCHAR\<close>\<close>

text \<open>Logging appends to the console when the machine has one.\<close>

lemma log_console_eq:
  "log_console vm msg = vm\<lparr>console_output := map_option (\<lambda>shown. shown @ [msg]) (console_output vm)\<rparr>"
  by (cases "console_output vm") (simp_all add: log_console_def)

text \<open>The dispatch table sends \<^verbatim>\<open>DIV\<close> and \<^verbatim>\<open>GETCHAR\<close> to their handlers.\<close>

lemma dispatch_DIV: "opcode instr = ''DIV'' \<Longrightarrow> dispatch P vm instr = handle_arithmetic P vm instr"
  by (simp add: dispatch_def opcode_handlers_def)


text \<open>
  Claim C8: take a running machine whose program counter is at a \<^verbatim>\<open>DIV\<close> instruction
  with a target and two operands, both of which resolve, the second to a value equal to
  0 (the integer 0, \<^verbatim>\<open>False\<close> or a float zero). Then \<^verbatim>\<open>step\<close> returns false, no exception
  leaves it, the machine is no longer running and still not halted, and one message that
  contains \<^verbatim>\<open>Division by zero\<close> has been appended to the console (when the machine has a
  console widget; without one \<^verbatim>\<open>_log_console\<close> writes nowhere).
\<close>

theorem div_by_zero_step:
  assumes run: "running vm" "\<not> halted vm" "pc vm < int (length (program vm))"
    and instr: "fetch vm = Some instr" "opcode instr = ''DIV''"
      "operands instr = [target, op1, op2]"
    and v1: "get_operand_value P vm op1 = Inr v1"
    and v2: "get_operand_value P vm op2 = Inr v2"
    and zero: "py_eq P v2 (VInt 0)"
  shows "\<exists>msg. step P vm
           = (Returned False,
              vm\<lparr>running := False,
                 console_output := map_option (\<lambda>shown. shown @ [msg]) (console_output vm)\<rparr>)
         \<and> sublist ''Division by zero'' msg
         \<and> \<not> running (snd (step P vm)) \<and> \<not> halted (snd (step P vm))"
proof -
  let ?msg = "''!!! '' @ error_msg instr vm (Exn ZeroDivisionError ''Division by zero'')"
  have h: "handle_arithmetic P vm instr = (Some (Exn ZeroDivisionError ''Division by zero''), vm)"
    using instr v1 v2 zero by (simp add: handle_arithmetic_def arith_result_def)
  have s: "step P vm = (Returned False, log_console (vm\<lparr>running := False\<rparr>) ?msg)"
    using run instr(1) by (simp add: step_def dispatch_DIV[OF instr(2)] h)
  have sub: "sublist ''Division by zero'' ?msg"
    unfolding error_msg_def exn.case sublist_def
    by (intro exI[of _ "''!!! '' @ ''Runtime Error at 3AC line '' @ str_nat (line_num instr)
                         @ '' (PC='' @ str_int (pc vm) @ ''): ''"] exI[of _ NL]) simp
  show ?thesis
    using s sub run(2) by (intro exI[of _ ?msg]) (simp add: log_console_eq)
qed


text \<open>A value stored under a name is read back under that name.\<close>

lemma dict_get_set_str [simp]:
  "dict_get P (dict_set P d (VStr k) v) (VStr k) = Some v"
  by (induction d) auto






text \<open>The theorem of C8 at the program \<^verbatim>\<open>DIV res, 10, 0\<close>, freshly loaded.\<close>

theorem div_by_zero_step_witness:
  "fst (step plain_host (snd (load_program plain_host fresh_vm [''DIV res, 10, 0''])))
     = Returned False
   \<and> running (snd (load_program plain_host fresh_vm [''DIV res, 10, 0'']))
   \<and> \<not> running (snd (step plain_host (snd (load_program plain_host fresh_vm [''DIV res, 10, 0'']))))
   \<and> \<not> halted (snd (step plain_host (snd (load_program plain_host fresh_vm [''DIV res, 10, 0'']))))
   \<and> (\<exists>msg. console_output
               (snd (step plain_host (snd (load_program plain_host fresh_vm [''DIV res, 10, 0'']))))
             = Some [''--- VM Console ---'' @ NL, msg]
           \<and> sublist ''Division by zero'' msg)"
proof -
  let ?S = "snd (load_program plain_host fresh_vm [''DIV res, 10, 0''])"
  let ?I = "\<lparr>opcode = ''DIV'', operands = [VStr ''res'', VInt 10, VInt 0], line_num = 0\<rparr>
            :: unit instruction"
  have run: "running ?S" "\<not> halted ?S" "pc ?S < int (length (program ?S))"
    by code_simp+
  have instr: "fetch ?S = Some ?I" by code_simp
  have con: "console_output ?S = Some [''--- VM Console ---'' @ NL]" by code_simp
  have v: "get_operand_value plain_host ?S (VInt 10) = Inr (VInt 10)"
    "get_operand_value plain_host ?S (VInt 0) = Inr (VInt 0)"
    by (simp_all add: get_operand_value_def)
  from div_by_zero_step[OF run instr _ _ v, of "VStr ''res''"]
  obtain msg where m: "step plain_host ?S
           = (Returned False,
              ?S\<lparr>running := False,
                 console_output := map_option (\<lambda>shown. shown @ [msg]) (console_output ?S)\<rparr>)"
      "sublist ''Division by zero'' msg"
    by auto
  show ?thesis
    using m run(1,2) by (simp add: con)
qed


subsection \<open>The call protocol: \<^verbatim>\<open>RETURN\<close>\<close>

text \<open>Without a frame on the stack, reading an operand never raises.\<close>

lemma get_operand_value_no_frame:
  "call_stack vm = [] \<Longrightarrow> \<exists>v. get_operand_value P vm x = Inr v"
  by (cases x) (auto simp: get_operand_value_def)

lemma return_operand_no_frame:
  "call_stack vm = [] \<Longrightarrow> \<exists>v. return_operand P vm ops = Inr v"
  using get_operand_value_no_frame[of vm P "hd ops"] by (auto simp: return_operand_def)

lemma handle_RETURN:
  "opcode instr = ''RETURN'' \<Longrightarrow> handle_function P vm instr = function_return P vm (operands instr)"
  by (simp add: handle_function_def)

text \<open>
  Claim C5, for the handler of a \<^verbatim>\<open>RETURN\<close> instruction.
  \<^item> With an empty call stack it raises \<^verbatim>\<open>RuntimeError\<close> and leaves the machine as it is.
  \<^item> The value returned is \<^verbatim>\<open>None\<close> when the instruction has no operand, and otherwise
    what the first operand reads in the machine before the pop, that is under the frame of
    the callee: a local of the callee is read as the callee has it.
  \<^item> When that read succeeds and the top frame names a return variable (a non-empty
    string), the top frame is popped, the program counter becomes its return address, and
    the value is stored under that name in the locals of the frame below, the caller's,
    or in global memory when the popped frame was the only one.
  \<^item> When the return variable of the top frame is falsy (absent), the frame is popped
    and the program counter set, and nothing is stored.
\<close>

theorem return_protocol:
  assumes "opcode instr = ''RETURN''"
  shows "(call_stack vm = [] \<longrightarrow>
            handle_function P vm instr
            = (Some (Exn RuntimeError ''RETURN instruction outside of a function call. Halting.''),
               vm))
       \<and> return_operand P vm [] = Inr VNone
       \<and> (\<forall>x xs. return_operand P vm (x # xs) = get_operand_value P vm x)
       \<and> (\<forall>frames callee x v.
             call_stack vm = frames @ [callee] \<and> dict_get P (locals callee) (VStr x) = Some v \<longrightarrow>
             get_operand_value P vm (VStr x) = Inr v)
       \<and> (\<forall>frames caller callee r v.
             call_stack vm = frames @ [caller, callee]
             \<and> return_operand P vm (operands instr) = Inr v
             \<and> return_var_name callee = VStr r \<and> r \<noteq> [] \<longrightarrow>
             handle_function P vm instr
             = (None, vm\<lparr>call_stack :=
                          frames @ [caller\<lparr>locals := dict_set P (locals caller) (VStr r) v\<rparr>],
                        pc := return_address callee\<rparr>))
       \<and> (\<forall>callee r v.
             call_stack vm = [callee]
             \<and> return_operand P vm (operands instr) = Inr v
             \<and> return_var_name callee = VStr r \<and> r \<noteq> [] \<longrightarrow>
             handle_function P vm instr
             = (None, vm\<lparr>call_stack := [], pc := return_address callee,
                        global_memory := dict_set P (global_memory vm) (VStr r) v\<rparr>))
       \<and> (\<forall>frames callee v.
             call_stack vm = frames @ [callee]
             \<and> return_operand P vm (operands instr) = Inr v
             \<and> \<not> truthy P (return_var_name callee) \<longrightarrow>
             handle_function P vm instr
             = (None, vm\<lparr>call_stack := frames, pc := return_address callee\<rparr>))"
proof (intro conjI allI impI)
  show "handle_function P vm instr
        = (Some (Exn RuntimeError ''RETURN instruction outside of a function call. Halting.''), vm)"
    if "call_stack vm = []"
    using return_operand_no_frame[OF that, of P "operands instr"] that
    by (auto simp: handle_RETURN[OF assms] function_return_def)
  show "return_operand P vm [] = Inr VNone"
    by (simp add: return_operand_def)
  show "return_operand P vm (x # xs) = get_operand_value P vm x" for x xs
    by (simp add: return_operand_def)
  show "get_operand_value P vm (VStr x) = Inr v"
    if "call_stack vm = frames @ [callee] \<and> dict_get P (locals callee) (VStr x) = Some v"
    for frames callee x v
    using that by (simp add: get_operand_value_def)
  show "handle_function P vm instr
        = (None, vm\<lparr>call_stack :=
                     frames @ [caller\<lparr>locals := dict_set P (locals caller) (VStr r) v\<rparr>],
                   pc := return_address callee\<rparr>)"
    if "call_stack vm = frames @ [caller, callee]
        \<and> return_operand P vm (operands instr) = Inr v
        \<and> return_var_name callee = VStr r \<and> r \<noteq> []"
    for frames caller callee r v
    using that
    by (simp add: handle_RETURN[OF assms] function_return_def pop_frame_def
                  set_variable_value_def set_top_locals_def butlast_append)
  show "handle_function P vm instr
        = (None, vm\<lparr>call_stack := [], pc := return_address callee,
                   global_memory := dict_set P (global_memory vm) (VStr r) v\<rparr>)"
    if "call_stack vm = [callee]
        \<and> return_operand P vm (operands instr) = Inr v
        \<and> return_var_name callee = VStr r \<and> r \<noteq> []"
    for callee r v
    using that
    by (simp add: handle_RETURN[OF assms] function_return_def pop_frame_def
                  set_variable_value_def)
  show "handle_function P vm instr
        = (None, vm\<lparr>call_stack := frames, pc := return_address callee\<rparr>)"
    if "call_stack vm = frames @ [callee]
        \<and> return_operand P vm (operands instr) = Inr v
        \<and> \<not> truthy P (return_var_name callee)"
    for frames callee v
    using that
    by (simp add: handle_RETURN[OF assms] function_return_def pop_frame_def)
qed


text \<open>
  The theorem of C5 at three machines: a freshly loaded one (empty stack), and the
  program \<open>nested_calls\<close> after two steps (\<open>g\<close> returns 7 into the local \<open>t\<close> of \<open>f\<close>)
  and after three (\<open>f\<close> returns \<open>t\<close> into the global \<open>r\<close>).
\<close>

theorem return_protocol_witness:
  "fst (handle_function plain_host (snd (load_program plain_host fresh_vm [''RETURN'']))
          \<lparr>opcode = ''RETURN'', operands = [], line_num = 0\<rparr>)
     = Some (Exn RuntimeError ''RETURN instruction outside of a function call. Halting.'')
   \<and> fst (handle_function plain_host
            (run_steps plain_host 2 (snd (load_program plain_host fresh_vm nested_calls)))
            \<lparr>opcode = ''RETURN'', operands = [VInt 7], line_num = 6\<rparr>) = None
   \<and> pc (snd (handle_function plain_host
            (run_steps plain_host 2 (snd (load_program plain_host fresh_vm nested_calls)))
            \<lparr>opcode = ''RETURN'', operands = [VInt 7], line_num = 6\<rparr>)) = 3
   \<and> map locals (call_stack (snd (handle_function plain_host
            (run_steps plain_host 2 (snd (load_program plain_host fresh_vm nested_calls)))
            \<lparr>opcode = ''RETURN'', operands = [VInt 7], line_num = 6\<rparr>)))
       = [[(VStr ''t'', VInt 7)]]
   \<and> call_stack (snd (handle_function plain_host
            (run_steps plain_host 3 (snd (load_program plain_host fresh_vm nested_calls)))
            \<lparr>opcode = ''RETURN'', operands = [VStr ''t''], line_num = 4\<rparr>)) = []
   \<and> pc (snd (handle_function plain_host
            (run_steps plain_host 3 (snd (load_program plain_host fresh_vm nested_calls)))
            \<lparr>opcode = ''RETURN'', operands = [VStr ''t''], line_num = 4\<rparr>)) = 1
   \<and> global_memory (snd (handle_function plain_host
            (run_steps plain_host 3 (snd (load_program plain_host fresh_vm nested_calls)))
            \<lparr>opcode = ''RETURN'', operands = [VStr ''t''], line_num = 4\<rparr>))
       = [(VStr ''r'', VInt 7)]"
proof -
  let ?S0 = "snd (load_program plain_host fresh_vm [''RETURN''])"
  let ?S2 = "run_steps plain_host 2 (snd (load_program plain_host fresh_vm nested_calls))"
  let ?S3 = "run_steps plain_host 3 (snd (load_program plain_host fresh_vm nested_calls))"
  let ?I0 = "\<lparr>opcode = ''RETURN'', operands = [], line_num = 0\<rparr> :: unit instruction"
  let ?I2 = "\<lparr>opcode = ''RETURN'', operands = [VInt 7], line_num = 6\<rparr> :: unit instruction"
  let ?I3 = "\<lparr>opcode = ''RETURN'', operands = [VStr ''t''], line_num = 4\<rparr> :: unit instruction"
  let ?F = "\<lparr>func_name = VStr ''f'', return_address = 1, return_var_name = VStr ''r'',
             locals = [], params = []\<rparr> :: unit stack_frame"
  let ?G = "\<lparr>func_name = VStr ''g'', return_address = 3, return_var_name = VStr ''t'',
             locals = [], params = []\<rparr> :: unit stack_frame"
  have e0: "call_stack ?S0 = []" by code_simp
  have c2: "call_stack ?S2 = [] @ [?F, ?G]" by code_simp
  have g2: "global_memory ?S2 = []" by code_simp
  have r2: "return_operand plain_host ?S2 (operands ?I2) = Inr (VInt 7)"
    by (simp add: return_operand_def get_operand_value_def)
  have c3: "call_stack ?S3 = [?F\<lparr>locals := [(VStr ''t'', VInt 7)]\<rparr>]" by code_simp
  have g3: "global_memory ?S3 = []" by code_simp
  have r3: "return_operand plain_host ?S3 (operands ?I3) = Inr (VInt 7)" by code_simp
  have a: "fst (handle_function plain_host ?S0 ?I0)
           = Some (Exn RuntimeError ''RETURN instruction outside of a function call. Halting.'')"
    using return_protocol[of ?I0 ?S0 plain_host] e0 by simp
  have b: "handle_function plain_host ?S2 ?I2
           = (None, ?S2\<lparr>call_stack := [] @ [?F\<lparr>locals := dict_set plain_host (locals ?F) (VStr ''t'') (VInt 7)\<rparr>],
                        pc := return_address ?G\<rparr>)"
    using return_protocol[of ?I2 ?S2 plain_host] c2 r2 by simp
  have c: "handle_function plain_host ?S3 ?I3
           = (None, ?S3\<lparr>call_stack := [], pc := return_address (?F\<lparr>locals := [(VStr ''t'', VInt 7)]\<rparr>),
                        global_memory := dict_set plain_host (global_memory ?S3) (VStr ''r'') (VInt 7)\<rparr>)"
    using return_protocol[of ?I3 ?S3 plain_host] c3 r3 by simp
  show ?thesis
    unfolding a b c by (simp add: g3)
qed

subsection \<open>By-reference parameters\<close>

text \<open>The decimal numeral of a number determines the number, so the names \<^verbatim>\<open>ARGi\<close> differ.\<close>

lemma of_char_digit: "d < 10 \<Longrightarrow> (of_char (digit_char d) :: nat) = 48 + d"
  by (simp add: digit_char_def)

lemma digits_val_snoc: "digits_val (s @ [c]) = 10 * digits_val s + (of_char c - 48)"
  by (simp add: digits_val_def)

lemma digits_val_str_nat: "digits_val (str_nat n) = n"
proof (induction n rule: str_nat.induct)
  case (1 n)
  show ?case
  proof (cases "n < 10")
    case True
    then show ?thesis
      by (subst str_nat.simps) (simp add: digits_val_def of_char_digit)
  next
    case False
    have "digits_val (str_nat n) = 10 * digits_val (str_nat (n div 10)) + (n mod 10)"
      using False by (subst str_nat.simps) (simp add: digits_val_snoc of_char_digit)
    then show ?thesis using 1 False by simp
  qed
qed

lemma str_nat_inj: "str_nat m = str_nat n \<Longrightarrow> m = n"
  by (metis digits_val_str_nat)

text \<open>Only a string is equal to a string, so a store under one name leaves the others.\<close>

lemma py_eq_str_right [simp]: "py_eq P k (VStr a) = (k = VStr a)"
  by (cases k) auto

lemma dict_get_set_other:
  "a \<noteq> b \<Longrightarrow> dict_get P (dict_set P d (VStr a) v) (VStr b) = dict_get P d (VStr b)"
  by (induction d) auto

text \<open>What the loop of \<^verbatim>\<open>CALL\<close> leaves under \<^verbatim>\<open>ARGm\<close>.\<close>

lemma bind_args_get:
  "dict_get P (bind_args P k ps d) (VStr (arg_name m))
   = (if k \<le> m \<and> m < k + length ps then Some (ps ! (m - k))
      else dict_get P d (VStr (arg_name m)))"
proof (induction ps arbitrary: k d)
  case Nil
  then show ?case by auto
next
  case (Cons p ps)
  let ?key = "VStr (arg_name m) :: 'a val"
  let ?d = "dict_set P d (VStr (arg_name k)) p"
  have step: "dict_get P (bind_args P (Suc k) ps ?d) ?key
        = (if Suc k \<le> m \<and> m < Suc k + length ps then Some (ps ! (m - Suc k))
           else dict_get P ?d ?key)"
    by (rule Cons.IH)
  have inj: "arg_name k = arg_name m \<longleftrightarrow> k = m"
    using str_nat_inj by (auto simp: arg_name_def)
  have here: "dict_get P ?d ?key = (if m = k then Some p else dict_get P d ?key)"
    using inj by (auto simp: dict_get_set_str dict_get_set_other)
  show ?case
    unfolding bind_args.simps step here
    by (auto simp: nth_Cons' Suc_diff_le)
qed

text \<open>
  After any \<^verbatim>\<open>CALL\<close> that does not raise, the new frame is on top, its \<^verbatim>\<open>params\<close> hold
  the pending parameters under \<^verbatim>\<open>ARG0\<close>, \<^verbatim>\<open>ARG1\<close>, ..., and reading \<^verbatim>\<open>ARGi\<close> returns the
  \<open>i\<close>-th pending parameter as it is, pointer or not: the read is answered from
  \<^verbatim>\<open>locals\<close>.
\<close>

lemma call_binds_verbatim:
  assumes call: "function_call P vm [label, n, rv] = (None, vm')"
    and i: "i < length (current_params vm)"
  shows "call_stack vm' = call_stack vm @ [new_frame P vm label rv]"
    and "dict_get P (params (last (call_stack vm'))) (VStr (arg_name i))
         = Some (current_params vm ! i)"
    and "get_operand_value P vm' (VStr (arg_name i)) = Inr (current_params vm ! i)"
proof -
  show cs: "call_stack vm' = call_stack vm @ [new_frame P vm label rv]"
    using call
    by (auto simp: function_call_def split: sum.splits if_splits option.splits)
  have l: "dict_get P (bind_args P 0 (current_params vm) []) (VStr (arg_name i))
           = Some (current_params vm ! i)"
    using i by (simp add: bind_args_get)
  show "dict_get P (params (last (call_stack vm'))) (VStr (arg_name i))
         = Some (current_params vm ! i)"
    using l by (simp add: cs new_frame_def)
  show "get_operand_value P vm' (VStr (arg_name i)) = Inr (current_params vm ! i)"
    using l by (simp add: get_operand_value_def cs new_frame_def)
qed

text \<open>\<^verbatim>\<open>REF_PARAM x\<close> appends a pointer to \<open>x\<close> to the pending parameters.\<close>

lemma ref_param_appends_pointer:
  assumes "function_ref_param P vm [VStr x] = (None, vm')"
  shows "\<exists>kind. current_params vm' = current_params vm @ [VTuple [VStr kind, VStr x]]
               \<and> (kind = ''local'' \<or> kind = ''global'')"
  using assms
  by (auto simp: function_ref_param_def get_variable_address_def advance_def split: if_splits)

text \<open>
  Claim C1 says that reading \<^verbatim>\<open>ARGi\<close> in a frame whose \<open>i\<close>-th parameter came from
  \<^verbatim>\<open>REF_PARAM\<close> follows the pointer. \<^verbatim>\<open>_get_operand_value\<close> has the code for it, in the
  branch for \<^verbatim>\<open>frame.params\<close>; but \<^verbatim>\<open>CALL\<close> stores every parameter in \<^verbatim>\<open>frame.locals\<close>
  too, and the locals are looked up first. In the program \<open>by_reference\<close>, after
  \<^verbatim>\<open>CONST_ASSIGN x, 5\<close>, \<^verbatim>\<open>REF_PARAM x\<close> and \<^verbatim>\<open>CALL f, 1, r\<close>, the parameter \<^verbatim>\<open>ARG0\<close> is
  bound to the pointer to the global \<open>x\<close>, which holds 5; reading \<^verbatim>\<open>ARG0\<close> gives the
  pointer, and \<^verbatim>\<open>ASSIGN y, ARG0\<close> stores the pointer in \<open>y\<close>.
\<close>

theorem ref_param_read_returns_pointer:
  "fst (load_program plain_host fresh_vm by_reference) = None
   \<and> map params (call_stack (run_steps plain_host 3 (snd (load_program plain_host fresh_vm by_reference))))
       = [[(VStr ''ARG0'', VTuple [VStr ''global'', VStr ''x''])]]
   \<and> get_operand_value plain_host
         (run_steps plain_host 3 (snd (load_program plain_host fresh_vm by_reference)))
         (VStr ''ARG0'')
       = Inr (VTuple [VStr ''global'', VStr ''x''])
   \<and> get_value_from_pointer plain_host
         (run_steps plain_host 3 (snd (load_program plain_host fresh_vm by_reference)))
         (VTuple [VStr ''global'', VStr ''x''])
       = Inr (VInt 5)
   \<and> map locals (call_stack (run_steps plain_host 4 (snd (load_program plain_host fresh_vm by_reference))))
       = [[(VStr ''ARG0'', VTuple [VStr ''global'', VStr ''x'']),
           (VStr ''y'', VTuple [VStr ''global'', VStr ''x''])]]"
  by code_simp

subsection \<open>Export and import\<close>

text \<open>
  Claim C4 says that exporting a reachable state and importing it again gives back the
  same global scope, call stack and heap contents. A pointer is a Python tuple, and JSON
  returns it as a list. In the program \<open>address_taken\<close>, after \<^verbatim>\<open>ADDR_OF p, x\<close> the
  global \<open>p\<close> holds the pointer to \<open>x\<close>; export followed by import succeeds and leaves a
  list under \<open>p\<close>, which \<^verbatim>\<open>_get_value_from_pointer\<close> then rejects.
\<close>

theorem export_import_loses_pointer:
  "global_memory (run_steps plain_host 1 (snd (load_program plain_host fresh_vm address_taken)))
     = [(VStr ''p'', VTuple [VStr ''global'', VStr ''x''])]
   \<and> map_option fst (export_then_import plain_host
         (run_steps plain_host 1 (snd (load_program plain_host fresh_vm address_taken))))
     = Some None
   \<and> map_option (\<lambda>r. global_memory (snd r)) (export_then_import plain_host
         (run_steps plain_host 1 (snd (load_program plain_host fresh_vm address_taken))))
     = Some [(VStr ''p'', VList [VStr ''global'', VStr ''x''])]
   \<and> map_option (\<lambda>r. isl (get_value_from_pointer plain_host (snd r)
                             (VList [VStr ''global'', VStr ''x''])))
        (export_then_import plain_host
           (run_steps plain_host 1 (snd (load_program plain_host fresh_vm address_taken))))
     = Some True"
  by code_simp

end
